theory Spec2Isabelle
  imports Complex_Main "HOL-Library.Product_Lexorder"
begin

section \<open>Python values used by \<open>extract_perf_grid_search.py\<close>\<close>

subsection \<open>Floats\<close>

text \<open>
  A Python float is an IEEE binary64 value. A finite value is represented by the exact
  rational it denotes; the negative zero, the two infinities and not-a-number are
  constructors of their own.
\<close>

datatype pyfloat = NaN | NInf | Fin rat | NegZero | PInf

text \<open>
  The position of a float that is not NaN on the extended number line; the two zeros
  share a position, as IEEE comparison does not tell them apart.
\<close>

fun ord_key :: "pyfloat \<Rightarrow> int \<times> rat" where
  "ord_key NInf = (-1, 0)"
| "ord_key (Fin q) = (0, q)"
| "ord_key NegZero = (0, 0)"
| "ord_key PInf = (1, 0)"
| "ord_key NaN = (0, 0)"

text \<open>Python's \<open><\<close>, \<open><=\<close> and \<open>>=\<close> on floats: every comparison with NaN is false.\<close>

definition float_lt :: "pyfloat \<Rightarrow> pyfloat \<Rightarrow> bool" where
  "float_lt x y = (x \<noteq> NaN \<and> y \<noteq> NaN \<and> ord_key x < ord_key y)"

definition float_le :: "pyfloat \<Rightarrow> pyfloat \<Rightarrow> bool" where
  "float_le x y = (x \<noteq> NaN \<and> y \<noteq> NaN \<and> ord_key x \<le> ord_key y)"

definition float_ge :: "pyfloat \<Rightarrow> pyfloat \<Rightarrow> bool" where
  "float_ge x y = float_le y x"

subsection \<open>The library functions the script calls\<close>

text \<open>
  The builtins \<open>float(s)\<close> and \<open>sorted(set(xs))\<close> are not code of the script; the
  model takes them as parameters. \<open>py_float s = None\<close> stands for \<open>float(s)\<close>
  raising.
\<close>

record pyrt =
  py_float :: "string \<Rightarrow> pyfloat option"
  py_sorted_set :: "pyfloat list \<Rightarrow> pyfloat list"

subsection \<open>Dictionaries and the object store\<close>

text \<open>
  A row is a \<open>Dict[str, str]\<close>. Rows are objects: the list \<open>rows\<close> holds references,
  \<open>min\<close> returns one of them, and \<open>dict(best)\<close> allocates a new object. The store is
  the list of all dictionaries allocated so far, a reference is an index into it.
\<close>

type_synonym row = "string \<rightharpoonup> string"
type_synonym ref = nat
type_synonym heap = "row list"

text \<open>\<open>d.get(k, dflt)\<close>\<close>

definition dict_get :: "row \<Rightarrow> string \<Rightarrow> string \<Rightarrow> string" where
  "dict_get d k dflt = (case d k of None \<Rightarrow> dflt | Some v \<Rightarrow> v)"

text \<open>\<open>{k: f(k) for k in ks}\<close>\<close>

definition dict_comp :: "string list \<Rightarrow> (string \<Rightarrow> string) \<Rightarrow> row" where
  "dict_comp ks f = fold (\<lambda>k d. d(k \<mapsto> f k)) ks Map.empty"

text \<open>Allocation of a new dictionary object, and \<open>d[k] = v\<close> on the object at \<open>r\<close>.\<close>

definition alloc :: "heap \<Rightarrow> row \<Rightarrow> heap \<times> ref" where
  "alloc h d = (h @ [d], length h)"

definition setitem :: "heap \<Rightarrow> ref \<Rightarrow> string \<Rightarrow> string \<Rightarrow> heap" where
  "setitem h r k v = h[r := (h ! r)(k \<mapsto> v)]"

section \<open>The selector\<close>

text \<open>
  \<^verbatim>\<open>
  def to_float_safe(s):
      try: return float(s)
      except Exception: return float("nan")
  \<close>
\<close>

definition to_float_safe :: "pyrt \<Rightarrow> string \<Rightarrow> pyfloat" where
  "to_float_safe rt s = (case py_float rt s of Some v \<Rightarrow> v | None \<Rightarrow> NaN)"

text \<open>
  \<open>min(xs, key=f)\<close> on a non-empty sequence: the scan keeps the first item as the
  candidate and replaces it exactly when a later key compares \<open><\<close> the candidate's.
\<close>

fun min_scan :: "('a \<Rightarrow> pyfloat) \<Rightarrow> 'a \<Rightarrow> pyfloat \<Rightarrow> 'a list \<Rightarrow> 'a" where
  "min_scan key best bk [] = best"
| "min_scan key best bk (x # xs) =
     (if float_lt (key x) bk then min_scan key x (key x) xs else min_scan key best bk xs)"

definition py_min :: "('a \<Rightarrow> pyfloat) \<Rightarrow> 'a \<Rightarrow> 'a list \<Rightarrow> 'a" where
  "py_min key x xs = min_scan key x (key x) xs"

text \<open>The parsed value of column \<open>col\<close> of the row object at \<open>r\<close>: \<open>to_float_safe(r.get(col, "nan"))\<close>.\<close>

definition parsed :: "pyrt \<Rightarrow> heap \<Rightarrow> string \<Rightarrow> ref \<Rightarrow> pyfloat" where
  "parsed rt h col r = to_float_safe rt (dict_get (h ! r) col ''nan'')"

text \<open>
  The list comprehension of \<open>select_best_for_cut\<close>: the qualifying rows, in input order.
  The comment above it in the source speaks of rows with an MRR strictly greater than the
  cut; the code compares with \<open>>=\<close>, as the docstring of the module says, and so does
  the model.
\<close>

definition filtered :: "pyrt \<Rightarrow> heap \<Rightarrow> ref list \<Rightarrow> string \<Rightarrow> pyfloat \<Rightarrow> ref list" where
  "filtered rt h rows mc c = filter (\<lambda>r. float_ge (parsed rt h mc r) c) rows"

definition select_best_for_cut ::
  "pyrt \<Rightarrow> heap \<Rightarrow> ref list \<Rightarrow> string \<Rightarrow> string \<Rightarrow> pyfloat \<Rightarrow> ref option" where
  "select_best_for_cut rt h rows mc tc c =
     (case filtered rt h rows mc c of
        [] \<Rightarrow> None
      | x # xs \<Rightarrow> Some (py_min (parsed rt h tc) x xs))"

section \<open>Float arithmetic of the default cut sequence\<close>

text \<open>
  Python's \<open>round(x)\<close> on a float, and the rounding used by every other operation
  below: to the nearest integer, a tie to the even one.
\<close>

definition round_half_even :: "rat \<Rightarrow> int" where
  "round_half_even q =
     (let f = \<lfloor>q\<rfloor>; r = q - of_int f
      in if r < 1 / 2 then f else if 1 / 2 < r then f + 1 else if even f then f else f + 1)"

text \<open>\<open>int.bit_length\<close>\<close>

fun bit_length :: "nat \<Rightarrow> nat" where
  "bit_length n = (if n = 0 then 0 else Suc (bit_length (n div 2)))"

text \<open>
  The binary exponent of a positive rational \<open>a / b\<close>, that is \<open>\<lfloor>log\<^sub>2 (a / b)\<rfloor>\<close>: the
  difference of the bit lengths is this exponent or one more.
\<close>

definition ilog2 :: "rat \<Rightarrow> int" where
  "ilog2 q =
     (let (a, b) = quotient_of q;
          d = int (bit_length (nat a)) - int (bit_length (nat b))
      in if 2 powi d \<le> q then d else d - 1)"

text \<open>
  Rounding of an exact result to binary64, round-to-nearest-even: 53 significant bits,
  and the grid of the subnormal numbers (multiples of \<open>2 powi (-1074)\<close>) below the
  normal range.
\<close>

definition rnd64 :: "rat \<Rightarrow> rat" where
  "rnd64 q =
     (if q = 0 then 0
      else let e = max (ilog2 \<bar>q\<bar> - 52) (- 1074); u = 2 powi e
           in of_int (round_half_even (q / u)) * u)"

text \<open>The float nearest to an exact value, with overflow to an infinity and the sign of zero.\<close>

definition to_double :: "rat \<Rightarrow> pyfloat" where
  "to_double q =
     (let r = rnd64 q
      in if 2 ^ 1024 \<le> r then PInf
         else if r \<le> - (2 ^ 1024) then NInf
         else if r = 0 \<and> q < 0 then NegZero
         else Fin r)"

text \<open>
  The float operations of lines 72 to 76, on finite doubles given by their exact values.
  Each is the exact operation followed by rounding; all values of the computation are
  at most \<open>15\<close>, so no operation overflows, and the only zero is the positive zero
  of \<open>0 * step\<close>.
  \<open>round(x, 6)\<close> rounds the exact value of \<open>x\<close> to six decimals, a tie to even, and
  returns the float nearest to that decimal.
\<close>

definition dbl_lit :: "rat \<Rightarrow> rat" where
  "dbl_lit q = rnd64 q"

definition dbl_add :: "rat \<Rightarrow> rat \<Rightarrow> rat" where
  "dbl_add x y = rnd64 (x + y)"

definition dbl_sub :: "rat \<Rightarrow> rat \<Rightarrow> rat" where
  "dbl_sub x y = rnd64 (x - y)"

definition dbl_mul :: "rat \<Rightarrow> rat \<Rightarrow> rat" where
  "dbl_mul x y = rnd64 (x * y)"

definition dbl_div :: "rat \<Rightarrow> rat \<Rightarrow> rat" where
  "dbl_div x y = rnd64 (x / y)"

definition dbl_of_nat :: "nat \<Rightarrow> rat" where
  "dbl_of_nat i = rnd64 (of_nat i)"

definition round_ndigits6 :: "rat \<Rightarrow> rat" where
  "round_ndigits6 x = rnd64 (of_int (round_half_even (x * 10 ^ 6)) / 10 ^ 6)"

text \<open>
  \<^verbatim>\<open>
  start = 0.39; end = 0.404; step = 0.001
  steps = int(round((end - start) / step)) + 1
  cuts = [round(start + i * step, 6) for i in range(0, steps)]
  \<close>
\<close>

definition default_steps :: int where
  "default_steps =
     (let start = dbl_lit (39 / 100); end = dbl_lit (404 / 1000); step = dbl_lit (1 / 1000)
      in round_half_even (dbl_div (dbl_sub end start) step) + 1)"

definition default_cuts :: "pyfloat list" where
  "default_cuts =
     (let start = dbl_lit (39 / 100); step = dbl_lit (1 / 1000)
      in map (\<lambda>i. Fin (round_ndigits6 (dbl_add start (dbl_mul (dbl_of_nat i) step))))
           [0..<nat default_steps])"

section \<open>Formatting a cut\<close>

definition digit_char :: "nat \<Rightarrow> char" where
  "digit_char d = ''0123456789'' ! d"

fun dec_digits :: "nat \<Rightarrow> string" where
  "dec_digits n = (if n < 10 then [digit_char n] else dec_digits (n div 10) @ [digit_char (n mod 10)])"

text \<open>
  \<open>f"{x:.6f}"\<close>: the exact value rounded to six decimals, a tie to even; the sign is
  printed also when the digits are all zero.
\<close>

definition fixed6 :: "rat \<Rightarrow> string" where
  "fixed6 q =
     (let n = nat (round_half_even (\<bar>q\<bar> * 10 ^ 6))
      in dec_digits (n div 10 ^ 6) @ ''.'' @
         map (\<lambda>i. digit_char (n div 10 ^ i mod 10)) [5, 4, 3, 2, 1, 0])"

fun format_6f :: "pyfloat \<Rightarrow> string" where
  "format_6f NaN = ''nan''"
| "format_6f PInf = ''inf''"
| "format_6f NInf = ''-inf''"
| "format_6f NegZero = ''-0.000000''"
| "format_6f (Fin q) = (if q < 0 then ''-'' @ fixed6 q else fixed6 q)"

section \<open>The program\<close>

text \<open>The namespace returned by \<open>parse_args\<close>; \<open>cuts\<close> is \<open>None\<close> when \<open>--cuts\<close> is not given.\<close>

record args =
  input :: string
  cuts :: "pyfloat list option"
  output_path :: "string option"
  mrr_col :: string
  time_col :: string
  min_rows :: int

text \<open>
  What a run leaves behind: the exit status, the lines printed to the error stream, the
  rows handed to the writer of the output target (the header row first), the object
  store at the end and the references held by the list \<open>results\<close>.
\<close>

record outcome =
  exit_status :: int
  err_stream :: "string list"
  written :: "string list list"
  final_heap :: heap
  result_refs :: "ref list"

text \<open>
  \<^verbatim>\<open>
  if args.cuts: cuts = sorted(set(args.cuts))
  else: (the default sequence)
  \<close>
  \<open>None\<close> and the empty list are the two falsy values of \<open>args.cuts\<close>.
\<close>

definition determine_cuts :: "pyrt \<Rightarrow> pyfloat list option \<Rightarrow> pyfloat list" where
  "determine_cuts rt cs =
     (case cs of
        Some (x # xs) \<Rightarrow> py_sorted_set rt (x # xs)
      | _ \<Rightarrow> default_cuts)"

text \<open>
  The body of the loop over the cuts (lines 79 to 91), on the store and the list
  \<open>results\<close>.
\<close>

definition process_cut ::
  "pyrt \<Rightarrow> args \<Rightarrow> string list \<Rightarrow> ref list \<Rightarrow> pyfloat \<Rightarrow> heap \<times> ref list \<Rightarrow> heap \<times> ref list" where
  "process_cut rt a header rows c st =
     (let (h, results) = st
      in case select_best_for_cut rt h rows (mrr_col a) (time_col a) c of
           None \<Rightarrow>
             (let (h1, empty_row) = alloc h (dict_comp header (\<lambda>k. ''/''));
                  h2 = setitem h1 empty_row ''mrr_cut'' (format_6f c);
                  h3 = setitem h2 empty_row (time_col a) ''/''
              in (h3, results @ [empty_row]))
         | Some best \<Rightarrow>
             (let (h1, out) = alloc h (h ! best);
                  h2 = setitem h1 out ''mrr_cut'' (format_6f c)
              in (h2, results @ [out])))"

text \<open>
  Lines 103 to 106: \<open>row = {k: r.get(k, "") for k in out_header}\<close>, of which the
  writer emits the values in the order of \<open>fieldnames\<close>.
\<close>

definition write_row :: "heap \<Rightarrow> string list \<Rightarrow> ref \<Rightarrow> string list" where
  "write_row h out_header r =
     (let row = dict_comp out_header (\<lambda>k. dict_get (h ! r) k [])
      in map (\<lambda>k. dict_get row k []) out_header)"

definition missing_msg :: "string \<Rightarrow> string \<Rightarrow> string" where
  "missing_msg what col =
     ''Error: '' @ what @ '' column '' @ [CHR 0x27] @ col @ [CHR 0x27] @ '' not found in input header''"

text \<open>
  \<open>main\<close>, from the result of \<open>read_tsv\<close> on: the header and the table, one dictionary
  per data line. Loading creates one object per line, so the store starts as the table
  and \<open>rows\<close> holds the references \<open>0, \<dots>, n - 1\<close>. \<open>args.output\<close> only chooses
  between a file and the standard output as the target of the writer; \<open>written\<close> is what
  the writer is given, whichever the target.
\<close>

definition main :: "pyrt \<Rightarrow> args \<Rightarrow> string list \<Rightarrow> row list \<Rightarrow> outcome" where
  "main rt a header table =
     (let h0 = table; rows = [0..<length table]
      in if mrr_col a \<notin> set header then
           \<lparr>exit_status = 2, err_stream = [missing_msg ''MRR'' (mrr_col a)],
            written = [], final_heap = h0, result_refs = []\<rparr>
         else if time_col a \<notin> set header then
           \<lparr>exit_status = 2, err_stream = [missing_msg ''time'' (time_col a)],
            written = [], final_heap = h0, result_refs = []\<rparr>
         else
           (let cs = determine_cuts rt (cuts a);
                (h, results) = fold (process_cut rt a header rows) cs (h0, []);
                out_header = ''mrr_cut'' # header
            in \<lparr>exit_status = 0, err_stream = [],
                written = out_header # map (write_row h out_header) results,
                final_heap = h, result_refs = results\<rparr>))"

section \<open>Specification-side notions\<close>

text \<open>
  The row at position \<open>i\<close> of \<open>L\<close> is the stable minimum of \<open>L\<close> by \<open>key\<close>: its key
  is a number, no row with a number as key has a smaller one, and every row before it
  has a key that is not less than or equal to its key (a larger number, or NaN).
\<close>

definition stable_min_at :: "('a \<Rightarrow> pyfloat) \<Rightarrow> 'a list \<Rightarrow> nat \<Rightarrow> bool" where
  "stable_min_at key L i =
     (i < length L \<and> key (L ! i) \<noteq> NaN \<and>
      list_all (\<lambda>x. key x \<noteq> NaN \<longrightarrow> float_le (key (L ! i)) (key x)) L \<and>
      list_all (\<lambda>x. \<not> float_le (key x) (key (L ! i))) (take i L))"

text \<open>The dictionary that the loop body builds for a cut, as a function of the loaded table.\<close>

definition placeholder :: "string list \<Rightarrow> string \<Rightarrow> pyfloat \<Rightarrow> row" where
  "placeholder header tc c = ((dict_comp header (\<lambda>k. ''/''))(''mrr_cut'' \<mapsto> format_6f c))(tc \<mapsto> ''/'')"

definition result_dict :: "pyrt \<Rightarrow> args \<Rightarrow> string list \<Rightarrow> row list \<Rightarrow> pyfloat \<Rightarrow> row" where
  "result_dict rt a header table c =
     (case select_best_for_cut rt table [0..<length table] (mrr_col a) (time_col a) c of
        None \<Rightarrow> placeholder header (time_col a) c
      | Some best \<Rightarrow> (table ! best)(''mrr_cut'' \<mapsto> format_6f c))"

section \<open>A concrete runtime and concrete tables\<close>

text \<open>
  An instance of the two library functions, for running the model on examples.
  \<open>float_plain\<close> is \<open>float\<close> on the strings \<open>digits\<close> and \<open>digits.digits\<close>, and raises
  on every other string; the examples below only use such decimals and strings that
  \<open>float\<close> rejects as well (\<open>n/a\<close> and \<open>-\<close>), or \<open>nan\<close>, which \<open>to_float_safe\<close> maps to
  NaN either way. \<open>sorted_set_plain\<close> is \<open>sorted(set(xs))\<close> for lists without NaN.
\<close>

definition is_digit :: "char \<Rightarrow> bool" where
  "is_digit ch = (ch \<in> set ''0123456789'')"

definition digit_val :: "char \<Rightarrow> nat" where
  "digit_val ch = length (takeWhile (\<lambda>d. d \<noteq> ch) ''0123456789'')"

definition dec_value :: "string \<Rightarrow> nat" where
  "dec_value s = foldl (\<lambda>n ch. 10 * n + digit_val ch) 0 s"

definition float_plain :: "string \<Rightarrow> pyfloat option" where
  "float_plain s =
     (let ip = takeWhile is_digit s; rest = dropWhile is_digit s
      in if ip = [] then None
         else case rest of
                [] \<Rightarrow> Some (to_double (of_nat (dec_value ip)))
              | ch # fp \<Rightarrow>
                  if ch = CHR ''.'' \<and> fp \<noteq> [] \<and> list_all is_digit fp
                  then Some (to_double (of_nat (dec_value (ip @ fp)) / 10 ^ length fp))
                  else None)"

fun insert_sorted :: "pyfloat \<Rightarrow> pyfloat list \<Rightarrow> pyfloat list" where
  "insert_sorted x [] = [x]"
| "insert_sorted x (y # ys) =
     (if float_lt x y then x # y # ys
      else if float_lt y x then y # insert_sorted x ys
      else y # ys)"

definition sorted_set_plain :: "pyfloat list \<Rightarrow> pyfloat list" where
  "sorted_set_plain xs = fold insert_sorted xs []"

definition plain_rt :: pyrt where
  "plain_rt = \<lparr>py_float = float_plain, py_sorted_set = sorted_set_plain\<rparr>"

text \<open>The dictionary that \<open>csv.DictReader\<close> builds from the header and the fields of a line.\<close>

definition row_of :: "string list \<Rightarrow> string list \<Rightarrow> row" where
  "row_of header vals = fold (\<lambda>kv d. d(fst kv \<mapsto> snd kv)) (zip header vals) Map.empty"

definition ex_header :: "string list" where
  "ex_header = [''nprobe'', ''avg_query_time_ns'', ''mrr@10'']"

definition ex_args :: "pyfloat list option \<Rightarrow> args" where
  "ex_args cs =
     \<lparr>input = ''grid_results_m32.tsv'', cuts = cs, output_path = None,
      mrr_col = ''mrr@10'', time_col = ''avg_query_time_ns'', min_rows = 1\<rparr>"

text \<open>The cut \<open>0.40\<close>.\<close>

definition ex_cut :: pyfloat where
  "ex_cut = to_double (2 / 5)"

text \<open>The cut \<open>0.30\<close>, which every row of the tables below reaches.\<close>

definition ex_cut_low :: pyfloat where
  "ex_cut_low = to_double (3 / 10)"

text \<open>The example of the specification: MRR 0.30, 0.40, 0.41 with times 100, 50, 80.\<close>

definition spec_table :: "row list" where
  "spec_table =
     [row_of ex_header [''1'', ''100'', ''0.30''],
      row_of ex_header [''2'', ''50'', ''0.40''],
      row_of ex_header [''4'', ''80'', ''0.41'']]"

text \<open>Tables in which the cell of the time column of some rows is not a number.\<close>

definition gap_table :: "row list" where
  "gap_table =
     [row_of ex_header [''1'', ''n/a'', ''0.40''],
      row_of ex_header [''2'', ''50'', ''0.40''],
      row_of ex_header [''4'', ''80'', ''0.41'']]"

definition gap_first_table :: "row list" where
  "gap_first_table =
     [row_of ex_header [''1'', ''n/a'', ''0.5''],
      row_of ex_header [''2'', ''10'', ''0.5'']]"

definition all_gap_table :: "row list" where
  "all_gap_table =
     [row_of ex_header [''1'', ''100'', ''0.30''],
      row_of ex_header [''2'', ''n/a'', ''0.40''],
      row_of ex_header [''4'', ''-'', ''0.41'']]"

text \<open>The header of a file that the program itself has written.\<close>

definition out_header_again :: "string list" where
  "out_header_again = [''mrr_cut'', ''nprobe'', ''avg_query_time_ns'', ''mrr@10'']"

section \<open>Rounding to binary64\<close>

lemma bit_length_pos: "0 < n \<Longrightarrow> 0 < bit_length n"
  by (subst bit_length.simps) simp

lemma bit_length_bounds: "0 < n \<Longrightarrow> 2 ^ (bit_length n - 1) \<le> n \<and> n < 2 ^ bit_length n"
proof (induction n rule: bit_length.induct)
  case (1 n)
  show ?case
  proof (cases "n = 1")
    case True
    then show ?thesis by (simp add: bit_length.simps [of "Suc 0"] bit_length.simps [of 0])
  next
    case False
    with "1.prems" have pos: "0 < n div 2" by simp
    from "1.IH" "1.prems" pos
    have ih: "2 ^ (bit_length (n div 2) - 1) \<le> n div 2" "n div 2 < 2 ^ bit_length (n div 2)"
      by simp_all
    have bl: "bit_length n = Suc (bit_length (n div 2))"
      using "1.prems" by (subst bit_length.simps) simp
    have k: "0 < bit_length (n div 2)" using pos by (rule bit_length_pos)
    then have e: "(2::nat) ^ bit_length (n div 2) = 2 * 2 ^ (bit_length (n div 2) - 1)"
      by (cases "bit_length (n div 2)") simp_all
    have lo: "2 ^ bit_length (n div 2) \<le> n" using ih(1) e by linarith
    have hi: "n < 2 * 2 ^ bit_length (n div 2)" using ih(2) by linarith
    show ?thesis using lo hi by (simp add: bl)
  qed
qed

lemma powi_mono2: "a \<le> b \<Longrightarrow> (2::rat) powi a \<le> 2 powi b"
  by (rule power_int_increasing) simp_all

lemma powi_less_cancel2: "(2::rat) powi a < 2 powi b \<Longrightarrow> a < b"
  by (metis powi_mono2 not_le)

lemma ilog2_bounds:
  assumes "0 < q"
  shows "2 powi ilog2 q \<le> q \<and> q < 2 powi (ilog2 q + 1)"
proof -
  obtain a b where ab: "quotient_of q = (a, b)" by (cases "quotient_of q")
  then have b: "0 < b" and q: "q = of_int a / of_int b"
    by (auto simp: quotient_of_denom_pos quotient_of_div)
  with assms have a: "0 < a" by (simp add: zero_less_divide_iff)
  define la where "la = bit_length (nat a)"
  define lb where "lb = bit_length (nat b)"
  define d where "d = int la - int lb"
  have A: "2 ^ (la - 1) \<le> nat a" "nat a < 2 ^ la"
    using bit_length_bounds [of "nat a"] a by (simp_all add: la_def)
  have B: "2 ^ (lb - 1) \<le> nat b" "nat b < 2 ^ lb"
    using bit_length_bounds [of "nat b"] b by (simp_all add: lb_def)
  have la: "0 < la" and lb: "0 < lb" using a b by (simp_all add: la_def lb_def bit_length_pos)
  have ra: "(2::rat) ^ (la - 1) \<le> of_int a" "of_int a < (2::rat) ^ la"
    using A a by (metis of_nat_le_iff of_nat_nat of_nat_numeral of_nat_power order_less_imp_le of_int_of_nat_eq,
                  metis of_nat_less_iff of_nat_nat of_nat_numeral of_nat_power order_less_imp_le of_int_of_nat_eq)
  have rb: "(2::rat) ^ (lb - 1) \<le> of_int b" "of_int b < (2::rat) ^ lb"
    using B b by (metis of_nat_le_iff of_nat_nat of_nat_numeral of_nat_power order_less_imp_le of_int_of_nat_eq,
                  metis of_nat_less_iff of_nat_nat of_nat_numeral of_nat_power order_less_imp_le of_int_of_nat_eq)
  have pd: "\<And>m n. (2::rat) powi (int m - int n) = 2 ^ m / 2 ^ n"
    by (simp add: power_int_diff)
  have "d + 1 = int la - int (lb - 1)" using lb by (simp add: d_def)
  then have e1: "(2::rat) powi (d + 1) = 2 ^ la / 2 ^ (lb - 1)" by (simp only: pd)
  have "d - 1 = int (la - 1) - int lb" using la by (simp add: d_def)
  then have e2: "(2::rat) powi (d - 1) = 2 ^ (la - 1) / 2 ^ lb" by (simp only: pd)
  have up: "q < 2 powi (d + 1)" unfolding e1 q using ra rb a b
    by (simp add: frac_less)
  have low: "2 powi (d - 1) < q" unfolding e2 q using ra rb a b
    by (simp add: frac_less2)
  have il: "ilog2 q = (if 2 powi d \<le> q then d else d - 1)"
    by (simp add: ilog2_def ab d_def la_def lb_def)
  show ?thesis using up low by (auto simp: il)
qed

lemma ilog2_unique:
  assumes "2 powi e \<le> q" "q < 2 powi (e + 1)"
  shows "ilog2 q = e"
proof -
  have "(0::rat) < 2 powi e" by simp
  with assms(1) have pos: "0 < q" by linarith
  from ilog2_bounds [OF pos] have b: "2 powi ilog2 q \<le> q" "q < 2 powi (ilog2 q + 1)" by simp_all
  have "2 powi e < (2::rat) powi (ilog2 q + 1)" using assms(1) b(2) by linarith
  then have 1: "e < ilog2 q + 1" by (rule powi_less_cancel2)
  have "2 powi ilog2 q < (2::rat) powi (e + 1)" using assms(2) b(1) by linarith
  then have 2: "ilog2 q < e + 1" by (rule powi_less_cancel2)
  from 1 2 show ?thesis by simp
qed

lemma rnd64_normal:
  assumes "2 powi e \<le> \<bar>q\<bar>" "\<bar>q\<bar> < 2 powi (e + 1)" "- 1022 \<le> e"
  shows "rnd64 q = of_int (round_half_even (q / 2 powi (e - 52))) * 2 powi (e - 52)"
proof -
  have "(0::rat) < 2 powi e" by simp
  with assms(1) have "0 < \<bar>q\<bar>" by linarith
  then have nz: "q \<noteq> 0" by simp
  have il: "ilog2 \<bar>q\<bar> = e" using assms(1,2) by (rule ilog2_unique)
  have mx: "max (e - 52) (- 1074) = e - 52" using assms(3) by linarith
  show ?thesis by (simp only: rnd64_def Let_def il mx nz if_False)
qed

lemma round_half_even_quotient:
  assumes "0 < b"
  shows "round_half_even (of_int a / of_int b) =
     (if 2 * (a mod b) < b then a div b
      else if b < 2 * (a mod b) then a div b + 1
      else if even (a div b) then a div b else a div b + 1)"
proof -
  have f: "\<lfloor>rat_of_int a / of_int b\<rfloor> = a div b" by (rule floor_divide_of_int_eq)
  have "rat_of_int a = of_int (a div b) * of_int b + of_int (a mod b)"
    by (metis of_int_add of_int_mult div_mult_mod_eq)
  then have r: "rat_of_int a / of_int b - of_int (a div b) = of_int (a mod b) / of_int b"
    using assms by (simp add: field_simps)
  have b': "0 < rat_of_int b" using assms by simp
  have "(rat_of_int (a mod b) / of_int b < 1 / 2) = (rat_of_int (2 * (a mod b)) < of_int b)"
    using b' by (simp add: field_simps)
  then have lt: "(rat_of_int (a mod b) / of_int b < 1 / 2) = (2 * (a mod b) < b)"
    by (simp only: of_int_less_iff)
  have "(1 / 2 < rat_of_int (a mod b) / of_int b) = (rat_of_int b < of_int (2 * (a mod b)))"
    using b' by (simp add: field_simps)
  then have gt: "(1 / 2 < rat_of_int (a mod b) / of_int b) = (b < 2 * (a mod b))"
    by (simp only: of_int_less_iff)
  show ?thesis unfolding round_half_even_def Let_def f r lt gt ..
qed

lemma round_half_even_numeral:
  "round_half_even (numeral a / numeral b) =
     (if 2 * (numeral a mod numeral b) < (numeral b :: int) then numeral a div numeral b
      else if (numeral b :: int) < 2 * (numeral a mod numeral b) then numeral a div numeral b + 1
      else if even (numeral a div numeral b :: int) then numeral a div numeral b
      else numeral a div numeral b + 1)"
  using round_half_even_quotient [of "numeral b" "numeral a"] by simp

lemma round_half_even_int_numeral: "round_half_even (numeral a) = numeral a"
  by (simp add: round_half_even_def)

text \<open>The float \<open>0.1\<close> is \<open>0x3FB999999999999A\<close>, that is \<open>3602879701896397 / 2\<^sup>5\<^sup>5\<close>.\<close>

lemma rnd64_one_tenth: "rnd64 (1 / 10) = 3602879701896397 / 36028797018963968"
  by (subst rnd64_normal [where e = "-4"]) (simp_all add: round_half_even_numeral)

section \<open>The default cut sequence, operation by operation\<close>

text \<open>
  Every float below is written as the exact rational it denotes. Each lemma evaluates one
  operation of lines 72 to 76 with \<open>rnd64_normal\<close>, from the binary exponent of the exact
  result; \<open>cut_i\<close> is the element \<open>round(start + i * step, 6)\<close> of the comprehension.
\<close>

lemma dbl_lit_start: "dbl_lit (39 / 100) = 3512807709348987 / 9007199254740992"
  unfolding dbl_lit_def
  by (subst rnd64_normal [where e = "-2"]) (simp_all add: round_half_even_numeral round_half_even_int_numeral)

lemma dbl_lit_end: "dbl_lit (404 / 1000) = 3638908498915361 / 9007199254740992"
  unfolding dbl_lit_def
  by (subst rnd64_normal [where e = "-2"]) (simp_all add: round_half_even_numeral round_half_even_int_numeral)

lemma dbl_lit_step: "dbl_lit (1 / 1000) = 1152921504606847 / 1152921504606846976"
  unfolding dbl_lit_def
  by (subst rnd64_normal [where e = "-10"]) (simp_all add: round_half_even_numeral round_half_even_int_numeral)

lemma dbl_sub_span: "dbl_sub (3638908498915361 / 9007199254740992) (3512807709348987 / 9007199254740992) = 63050394783187 / 4503599627370496"
  unfolding dbl_sub_def
  by (subst rnd64_normal [where e = "-7"]) (simp_all add: round_half_even_numeral round_half_even_int_numeral)

lemma dbl_div_ratio: "dbl_div (63050394783187 / 4503599627370496) (1152921504606847 / 1152921504606846976) = 7881299347898375 / 562949953421312"
  unfolding dbl_div_def
  by (subst rnd64_normal [where e = "3"]) (simp_all add: round_half_even_numeral round_half_even_int_numeral)

lemma default_steps_value: "default_steps = 15"
proof -
  have "round_half_even (7881299347898375 / 562949953421312) = 14"
    by (simp add: round_half_even_numeral)
  then show ?thesis
    by (simp only: default_steps_def Let_def dbl_lit_start dbl_lit_end dbl_lit_step dbl_sub_span dbl_div_ratio)
qed

lemma cut_0:
  "round_ndigits6 (dbl_add (3512807709348987 / 9007199254740992) (dbl_mul (dbl_of_nat 0) (1152921504606847 / 1152921504606846976))) = 3512807709348987 / 9007199254740992"
proof -
  have i: "dbl_of_nat 0 = 0" by (simp add: dbl_of_nat_def rnd64_def)
  have m: "dbl_mul 0 (1152921504606847 / 1152921504606846976) = 0" by (simp add: dbl_mul_def rnd64_def)
  have a: "dbl_add (3512807709348987 / 9007199254740992) 0 = 3512807709348987 / 9007199254740992"
    unfolding dbl_add_def
    by (subst rnd64_normal [where e = "-2"]) (simp_all add: round_half_even_numeral round_half_even_int_numeral)
  have n: "round_half_even ((3512807709348987 / 9007199254740992) * 10 ^ 6) = 390000"
    by (simp add: round_half_even_numeral)
  have c: "rnd64 (rat_of_int 390000 / 10 ^ 6) = 3512807709348987 / 9007199254740992"
    by (subst rnd64_normal [where e = "-2"]) (simp_all add: round_half_even_numeral round_half_even_int_numeral)
  show ?thesis
    by (simp only: i m a round_ndigits6_def n c)
qed

lemma cut_1:
  "round_ndigits6 (dbl_add (3512807709348987 / 9007199254740992) (dbl_mul (dbl_of_nat 1) (1152921504606847 / 1152921504606846976))) = 220113431787733 / 562949953421312"
proof -
  have i: "dbl_of_nat 1 = 1"
    unfolding dbl_of_nat_def of_nat_numeral of_nat_1
    by (subst rnd64_normal [where e = "0"]) (simp_all add: round_half_even_numeral round_half_even_int_numeral)
  have m: "dbl_mul 1 (1152921504606847 / 1152921504606846976) = 1152921504606847 / 1152921504606846976"
    unfolding dbl_mul_def
    by (subst rnd64_normal [where e = "-10"]) (simp_all add: round_half_even_numeral round_half_even_int_numeral)
  have a: "dbl_add (3512807709348987 / 9007199254740992) (1152921504606847 / 1152921504606846976) = 220113431787733 / 562949953421312"
    unfolding dbl_add_def
    by (subst rnd64_normal [where e = "-2"]) (simp_all add: round_half_even_numeral round_half_even_int_numeral)
  have n: "round_half_even ((220113431787733 / 562949953421312) * 10 ^ 6) = 391000"
    by (simp add: round_half_even_numeral)
  have c: "rnd64 (rat_of_int 391000 / 10 ^ 6) = 220113431787733 / 562949953421312"
    by (subst rnd64_normal [where e = "-2"]) (simp_all add: round_half_even_numeral round_half_even_int_numeral)
  show ?thesis
    by (simp only: i m a round_ndigits6_def n c)
qed

lemma cut_2:
  "round_ndigits6 (dbl_add (3512807709348987 / 9007199254740992) (dbl_mul (dbl_of_nat 2) (1152921504606847 / 1152921504606846976))) = 3530822107858469 / 9007199254740992"
proof -
  have i: "dbl_of_nat 2 = 2"
    unfolding dbl_of_nat_def of_nat_numeral of_nat_1
    by (subst rnd64_normal [where e = "1"]) (simp_all add: round_half_even_numeral round_half_even_int_numeral)
  have m: "dbl_mul 2 (1152921504606847 / 1152921504606846976) = 1152921504606847 / 576460752303423488"
    unfolding dbl_mul_def
    by (subst rnd64_normal [where e = "-9"]) (simp_all add: round_half_even_numeral round_half_even_int_numeral)
  have a: "dbl_add (3512807709348987 / 9007199254740992) (1152921504606847 / 576460752303423488) = 3530822107858469 / 9007199254740992"
    unfolding dbl_add_def
    by (subst rnd64_normal [where e = "-2"]) (simp_all add: round_half_even_numeral round_half_even_int_numeral)
  have n: "round_half_even ((3530822107858469 / 9007199254740992) * 10 ^ 6) = 392000"
    by (simp add: round_half_even_numeral)
  have c: "rnd64 (rat_of_int 392000 / 10 ^ 6) = 3530822107858469 / 9007199254740992"
    by (subst rnd64_normal [where e = "-2"]) (simp_all add: round_half_even_numeral round_half_even_int_numeral)
  show ?thesis
    by (simp only: i m a round_ndigits6_def n c)
qed

lemma cut_3:
  "round_ndigits6 (dbl_add (3512807709348987 / 9007199254740992) (dbl_mul (dbl_of_nat 3) (1152921504606847 / 1152921504606846976))) = 1769914653556605 / 4503599627370496"
proof -
  have i: "dbl_of_nat 3 = 3"
    unfolding dbl_of_nat_def of_nat_numeral of_nat_1
    by (subst rnd64_normal [where e = "1"]) (simp_all add: round_half_even_numeral round_half_even_int_numeral)
  have m: "dbl_mul 3 (1152921504606847 / 1152921504606846976) = 3458764513820541 / 1152921504606846976"
    unfolding dbl_mul_def
    by (subst rnd64_normal [where e = "-9"]) (simp_all add: round_half_even_numeral round_half_even_int_numeral)
  have a: "dbl_add (3512807709348987 / 9007199254740992) (3458764513820541 / 1152921504606846976) = 1769914653556605 / 4503599627370496"
    unfolding dbl_add_def
    by (subst rnd64_normal [where e = "-2"]) (simp_all add: round_half_even_numeral round_half_even_int_numeral)
  have n: "round_half_even ((1769914653556605 / 4503599627370496) * 10 ^ 6) = 393000"
    by (simp add: round_half_even_numeral)
  have c: "rnd64 (rat_of_int 393000 / 10 ^ 6) = 1769914653556605 / 4503599627370496"
    by (subst rnd64_normal [where e = "-2"]) (simp_all add: round_half_even_numeral round_half_even_int_numeral)
  show ?thesis
    by (simp only: i m a round_ndigits6_def n c)
qed

lemma cut_4:
  "round_ndigits6 (dbl_add (3512807709348987 / 9007199254740992) (dbl_mul (dbl_of_nat 4) (1152921504606847 / 1152921504606846976))) = 3548836506367951 / 9007199254740992"
proof -
  have i: "dbl_of_nat 4 = 4"
    unfolding dbl_of_nat_def of_nat_numeral of_nat_1
    by (subst rnd64_normal [where e = "2"]) (simp_all add: round_half_even_numeral round_half_even_int_numeral)
  have m: "dbl_mul 4 (1152921504606847 / 1152921504606846976) = 1152921504606847 / 288230376151711744"
    unfolding dbl_mul_def
    by (subst rnd64_normal [where e = "-8"]) (simp_all add: round_half_even_numeral round_half_even_int_numeral)
  have a: "dbl_add (3512807709348987 / 9007199254740992) (1152921504606847 / 288230376151711744) = 3548836506367951 / 9007199254740992"
    unfolding dbl_add_def
    by (subst rnd64_normal [where e = "-2"]) (simp_all add: round_half_even_numeral round_half_even_int_numeral)
  have n: "round_half_even ((3548836506367951 / 9007199254740992) * 10 ^ 6) = 394000"
    by (simp add: round_half_even_numeral)
  have c: "rnd64 (rat_of_int 394000 / 10 ^ 6) = 3548836506367951 / 9007199254740992"
    by (subst rnd64_normal [where e = "-2"]) (simp_all add: round_half_even_numeral round_half_even_int_numeral)
  show ?thesis
    by (simp only: i m a round_ndigits6_def n c)
qed

lemma cut_5:
  "round_ndigits6 (dbl_add (3512807709348987 / 9007199254740992) (dbl_mul (dbl_of_nat 5) (1152921504606847 / 1152921504606846976))) = 889460926405673 / 2251799813685248"
proof -
  have i: "dbl_of_nat 5 = 5"
    unfolding dbl_of_nat_def of_nat_numeral of_nat_1
    by (subst rnd64_normal [where e = "2"]) (simp_all add: round_half_even_numeral round_half_even_int_numeral)
  have m: "dbl_mul 5 (1152921504606847 / 1152921504606846976) = 5764607523034235 / 1152921504606846976"
    unfolding dbl_mul_def
    by (subst rnd64_normal [where e = "-8"]) (simp_all add: round_half_even_numeral round_half_even_int_numeral)
  have a: "dbl_add (3512807709348987 / 9007199254740992) (5764607523034235 / 1152921504606846976) = 889460926405673 / 2251799813685248"
    unfolding dbl_add_def
    by (subst rnd64_normal [where e = "-2"]) (simp_all add: round_half_even_numeral round_half_even_int_numeral)
  have n: "round_half_even ((889460926405673 / 2251799813685248) * 10 ^ 6) = 395000"
    by (simp add: round_half_even_numeral)
  have c: "rnd64 (rat_of_int 395000 / 10 ^ 6) = 889460926405673 / 2251799813685248"
    by (subst rnd64_normal [where e = "-2"]) (simp_all add: round_half_even_numeral round_half_even_int_numeral)
  show ?thesis
    by (simp only: i m a round_ndigits6_def n c)
qed

lemma cut_6:
  "round_ndigits6 (dbl_add (3512807709348987 / 9007199254740992) (dbl_mul (dbl_of_nat 6) (1152921504606847 / 1152921504606846976))) = 3566850904877433 / 9007199254740992"
proof -
  have i: "dbl_of_nat 6 = 6"
    unfolding dbl_of_nat_def of_nat_numeral of_nat_1
    by (subst rnd64_normal [where e = "2"]) (simp_all add: round_half_even_numeral round_half_even_int_numeral)
  have m: "dbl_mul 6 (1152921504606847 / 1152921504606846976) = 3458764513820541 / 576460752303423488"
    unfolding dbl_mul_def
    by (subst rnd64_normal [where e = "-8"]) (simp_all add: round_half_even_numeral round_half_even_int_numeral)
  have a: "dbl_add (3512807709348987 / 9007199254740992) (3458764513820541 / 576460752303423488) = 3566850904877433 / 9007199254740992"
    unfolding dbl_add_def
    by (subst rnd64_normal [where e = "-2"]) (simp_all add: round_half_even_numeral round_half_even_int_numeral)
  have n: "round_half_even ((3566850904877433 / 9007199254740992) * 10 ^ 6) = 396000"
    by (simp add: round_half_even_numeral)
  have c: "rnd64 (rat_of_int 396000 / 10 ^ 6) = 3566850904877433 / 9007199254740992"
    by (subst rnd64_normal [where e = "-2"]) (simp_all add: round_half_even_numeral round_half_even_int_numeral)
  show ?thesis
    by (simp only: i m a round_ndigits6_def n c)
qed

lemma cut_7:
  "round_ndigits6 (dbl_add (3512807709348987 / 9007199254740992) (dbl_mul (dbl_of_nat 7) (1152921504606847 / 1152921504606846976))) = 1787929052066087 / 4503599627370496"
proof -
  have i: "dbl_of_nat 7 = 7"
    unfolding dbl_of_nat_def of_nat_numeral of_nat_1
    by (subst rnd64_normal [where e = "2"]) (simp_all add: round_half_even_numeral round_half_even_int_numeral)
  have m: "dbl_mul 7 (1152921504606847 / 1152921504606846976) = 8070450532247929 / 1152921504606846976"
    unfolding dbl_mul_def
    by (subst rnd64_normal [where e = "-8"]) (simp_all add: round_half_even_numeral round_half_even_int_numeral)
  have a: "dbl_add (3512807709348987 / 9007199254740992) (8070450532247929 / 1152921504606846976) = 1787929052066087 / 4503599627370496"
    unfolding dbl_add_def
    by (subst rnd64_normal [where e = "-2"]) (simp_all add: round_half_even_numeral round_half_even_int_numeral)
  have n: "round_half_even ((1787929052066087 / 4503599627370496) * 10 ^ 6) = 397000"
    by (simp add: round_half_even_numeral)
  have c: "rnd64 (rat_of_int 397000 / 10 ^ 6) = 1787929052066087 / 4503599627370496"
    by (subst rnd64_normal [where e = "-2"]) (simp_all add: round_half_even_numeral round_half_even_int_numeral)
  show ?thesis
    by (simp only: i m a round_ndigits6_def n c)
qed

lemma cut_8:
  "round_ndigits6 (dbl_add (3512807709348987 / 9007199254740992) (dbl_mul (dbl_of_nat 8) (1152921504606847 / 1152921504606846976))) = 3584865303386915 / 9007199254740992"
proof -
  have i: "dbl_of_nat 8 = 8"
    unfolding dbl_of_nat_def of_nat_numeral of_nat_1
    by (subst rnd64_normal [where e = "3"]) (simp_all add: round_half_even_numeral round_half_even_int_numeral)
  have m: "dbl_mul 8 (1152921504606847 / 1152921504606846976) = 1152921504606847 / 144115188075855872"
    unfolding dbl_mul_def
    by (subst rnd64_normal [where e = "-7"]) (simp_all add: round_half_even_numeral round_half_even_int_numeral)
  have a: "dbl_add (3512807709348987 / 9007199254740992) (1152921504606847 / 144115188075855872) = 3584865303386915 / 9007199254740992"
    unfolding dbl_add_def
    by (subst rnd64_normal [where e = "-2"]) (simp_all add: round_half_even_numeral round_half_even_int_numeral)
  have n: "round_half_even ((3584865303386915 / 9007199254740992) * 10 ^ 6) = 398000"
    by (simp add: round_half_even_numeral)
  have c: "rnd64 (rat_of_int 398000 / 10 ^ 6) = 3584865303386915 / 9007199254740992"
    by (subst rnd64_normal [where e = "-2"]) (simp_all add: round_half_even_numeral round_half_even_int_numeral)
  show ?thesis
    by (simp only: i m a round_ndigits6_def n c)
qed

lemma cut_9:
  "round_ndigits6 (dbl_add (3512807709348987 / 9007199254740992) (dbl_mul (dbl_of_nat 9) (1152921504606847 / 1152921504606846976))) = 449234062830207 / 1125899906842624"
proof -
  have i: "dbl_of_nat 9 = 9"
    unfolding dbl_of_nat_def of_nat_numeral of_nat_1
    by (subst rnd64_normal [where e = "3"]) (simp_all add: round_half_even_numeral round_half_even_int_numeral)
  have m: "dbl_mul 9 (1152921504606847 / 1152921504606846976) = 1297036692682703 / 144115188075855872"
    unfolding dbl_mul_def
    by (subst rnd64_normal [where e = "-7"]) (simp_all add: round_half_even_numeral round_half_even_int_numeral)
  have a: "dbl_add (3512807709348987 / 9007199254740992) (1297036692682703 / 144115188075855872) = 449234062830207 / 1125899906842624"
    unfolding dbl_add_def
    by (subst rnd64_normal [where e = "-2"]) (simp_all add: round_half_even_numeral round_half_even_int_numeral)
  have n: "round_half_even ((449234062830207 / 1125899906842624) * 10 ^ 6) = 399000"
    by (simp add: round_half_even_numeral)
  have c: "rnd64 (rat_of_int 399000 / 10 ^ 6) = 449234062830207 / 1125899906842624"
    by (subst rnd64_normal [where e = "-2"]) (simp_all add: round_half_even_numeral round_half_even_int_numeral)
  show ?thesis
    by (simp only: i m a round_ndigits6_def n c)
qed

lemma cut_10:
  "round_ndigits6 (dbl_add (3512807709348987 / 9007199254740992) (dbl_mul (dbl_of_nat 10) (1152921504606847 / 1152921504606846976))) = 3602879701896397 / 9007199254740992"
proof -
  have i: "dbl_of_nat 10 = 10"
    unfolding dbl_of_nat_def of_nat_numeral of_nat_1
    by (subst rnd64_normal [where e = "3"]) (simp_all add: round_half_even_numeral round_half_even_int_numeral)
  have m: "dbl_mul 10 (1152921504606847 / 1152921504606846976) = 5764607523034235 / 576460752303423488"
    unfolding dbl_mul_def
    by (subst rnd64_normal [where e = "-7"]) (simp_all add: round_half_even_numeral round_half_even_int_numeral)
  have a: "dbl_add (3512807709348987 / 9007199254740992) (5764607523034235 / 576460752303423488) = 3602879701896397 / 9007199254740992"
    unfolding dbl_add_def
    by (subst rnd64_normal [where e = "-2"]) (simp_all add: round_half_even_numeral round_half_even_int_numeral)
  have n: "round_half_even ((3602879701896397 / 9007199254740992) * 10 ^ 6) = 400000"
    by (simp add: round_half_even_numeral)
  have c: "rnd64 (rat_of_int 400000 / 10 ^ 6) = 3602879701896397 / 9007199254740992"
    by (subst rnd64_normal [where e = "-2"]) (simp_all add: round_half_even_numeral round_half_even_int_numeral)
  show ?thesis
    by (simp only: i m a round_ndigits6_def n c)
qed

lemma cut_11:
  "round_ndigits6 (dbl_add (3512807709348987 / 9007199254740992) (dbl_mul (dbl_of_nat 11) (1152921504606847 / 1152921504606846976))) = 1805943450575569 / 4503599627370496"
proof -
  have i: "dbl_of_nat 11 = 11"
    unfolding dbl_of_nat_def of_nat_numeral of_nat_1
    by (subst rnd64_normal [where e = "3"]) (simp_all add: round_half_even_numeral round_half_even_int_numeral)
  have m: "dbl_mul 11 (1152921504606847 / 1152921504606846976) = 3170534137668829 / 288230376151711744"
    unfolding dbl_mul_def
    by (subst rnd64_normal [where e = "-7"]) (simp_all add: round_half_even_numeral round_half_even_int_numeral)
  have a: "dbl_add (3512807709348987 / 9007199254740992) (3170534137668829 / 288230376151711744) = 1805943450575569 / 4503599627370496"
    unfolding dbl_add_def
    by (subst rnd64_normal [where e = "-2"]) (simp_all add: round_half_even_numeral round_half_even_int_numeral)
  have n: "round_half_even ((1805943450575569 / 4503599627370496) * 10 ^ 6) = 401000"
    by (simp add: round_half_even_numeral)
  have c: "rnd64 (rat_of_int 401000 / 10 ^ 6) = 1805943450575569 / 4503599627370496"
    by (subst rnd64_normal [where e = "-2"]) (simp_all add: round_half_even_numeral round_half_even_int_numeral)
  show ?thesis
    by (simp only: i m a round_ndigits6_def n c)
qed

lemma cut_12:
  "round_ndigits6 (dbl_add (3512807709348987 / 9007199254740992) (dbl_mul (dbl_of_nat 12) (1152921504606847 / 1152921504606846976))) = 3620894100405879 / 9007199254740992"
proof -
  have i: "dbl_of_nat 12 = 12"
    unfolding dbl_of_nat_def of_nat_numeral of_nat_1
    by (subst rnd64_normal [where e = "3"]) (simp_all add: round_half_even_numeral round_half_even_int_numeral)
  have m: "dbl_mul 12 (1152921504606847 / 1152921504606846976) = 3458764513820541 / 288230376151711744"
    unfolding dbl_mul_def
    by (subst rnd64_normal [where e = "-7"]) (simp_all add: round_half_even_numeral round_half_even_int_numeral)
  have a: "dbl_add (3512807709348987 / 9007199254740992) (3458764513820541 / 288230376151711744) = 3620894100405879 / 9007199254740992"
    unfolding dbl_add_def
    by (subst rnd64_normal [where e = "-2"]) (simp_all add: round_half_even_numeral round_half_even_int_numeral)
  have n: "round_half_even ((3620894100405879 / 9007199254740992) * 10 ^ 6) = 402000"
    by (simp add: round_half_even_numeral)
  have c: "rnd64 (rat_of_int 402000 / 10 ^ 6) = 3620894100405879 / 9007199254740992"
    by (subst rnd64_normal [where e = "-2"]) (simp_all add: round_half_even_numeral round_half_even_int_numeral)
  show ?thesis
    by (simp only: i m a round_ndigits6_def n c)
qed

lemma cut_13:
  "round_ndigits6 (dbl_add (3512807709348987 / 9007199254740992) (dbl_mul (dbl_of_nat 13) (1152921504606847 / 1152921504606846976))) = 907475324915155 / 2251799813685248"
proof -
  have i: "dbl_of_nat 13 = 13"
    unfolding dbl_of_nat_def of_nat_numeral of_nat_1
    by (subst rnd64_normal [where e = "3"]) (simp_all add: round_half_even_numeral round_half_even_int_numeral)
  have m: "dbl_mul 13 (1152921504606847 / 1152921504606846976) = 3746994889972253 / 288230376151711744"
    unfolding dbl_mul_def
    by (subst rnd64_normal [where e = "-7"]) (simp_all add: round_half_even_numeral round_half_even_int_numeral)
  have a: "dbl_add (3512807709348987 / 9007199254740992) (3746994889972253 / 288230376151711744) = 907475324915155 / 2251799813685248"
    unfolding dbl_add_def
    by (subst rnd64_normal [where e = "-2"]) (simp_all add: round_half_even_numeral round_half_even_int_numeral)
  have n: "round_half_even ((907475324915155 / 2251799813685248) * 10 ^ 6) = 403000"
    by (simp add: round_half_even_numeral)
  have c: "rnd64 (rat_of_int 403000 / 10 ^ 6) = 907475324915155 / 2251799813685248"
    by (subst rnd64_normal [where e = "-2"]) (simp_all add: round_half_even_numeral round_half_even_int_numeral)
  show ?thesis
    by (simp only: i m a round_ndigits6_def n c)
qed

lemma cut_14:
  "round_ndigits6 (dbl_add (3512807709348987 / 9007199254740992) (dbl_mul (dbl_of_nat 14) (1152921504606847 / 1152921504606846976))) = 3638908498915361 / 9007199254740992"
proof -
  have i: "dbl_of_nat 14 = 14"
    unfolding dbl_of_nat_def of_nat_numeral of_nat_1
    by (subst rnd64_normal [where e = "3"]) (simp_all add: round_half_even_numeral round_half_even_int_numeral)
  have m: "dbl_mul 14 (1152921504606847 / 1152921504606846976) = 8070450532247929 / 576460752303423488"
    unfolding dbl_mul_def
    by (subst rnd64_normal [where e = "-7"]) (simp_all add: round_half_even_numeral round_half_even_int_numeral)
  have a: "dbl_add (3512807709348987 / 9007199254740992) (8070450532247929 / 576460752303423488) = 3638908498915361 / 9007199254740992"
    unfolding dbl_add_def
    by (subst rnd64_normal [where e = "-2"]) (simp_all add: round_half_even_numeral round_half_even_int_numeral)
  have n: "round_half_even ((3638908498915361 / 9007199254740992) * 10 ^ 6) = 404000"
    by (simp add: round_half_even_numeral)
  have c: "rnd64 (rat_of_int 404000 / 10 ^ 6) = 3638908498915361 / 9007199254740992"
    by (subst rnd64_normal [where e = "-2"]) (simp_all add: round_half_even_numeral round_half_even_int_numeral)
  show ?thesis
    by (simp only: i m a round_ndigits6_def n c)
qed

lemma upt_default_steps: "[0..<nat 15] = [0, 1, 2, 3, 4, 5, 6, 7, 8, 9, 10, 11, 12, 13, 14]"
  by (simp add: upt_rec)

lemma default_cuts_values:
  "default_cuts =
     [Fin (3512807709348987 / 9007199254740992),
      Fin (220113431787733 / 562949953421312),
      Fin (3530822107858469 / 9007199254740992),
      Fin (1769914653556605 / 4503599627370496),
      Fin (3548836506367951 / 9007199254740992),
      Fin (889460926405673 / 2251799813685248),
      Fin (3566850904877433 / 9007199254740992),
      Fin (1787929052066087 / 4503599627370496),
      Fin (3584865303386915 / 9007199254740992),
      Fin (449234062830207 / 1125899906842624),
      Fin (3602879701896397 / 9007199254740992),
      Fin (1805943450575569 / 4503599627370496),
      Fin (3620894100405879 / 9007199254740992),
      Fin (907475324915155 / 2251799813685248),
      Fin (3638908498915361 / 9007199254740992)]"
  by (simp only: default_cuts_def Let_def default_steps_value upt_default_steps list.map
      dbl_lit_start dbl_lit_step cut_0 cut_1 cut_2 cut_3 cut_4 cut_5 cut_6 cut_7 cut_8 cut_9 cut_10 cut_11 cut_12 cut_13 cut_14)

lemma to_double_390: "to_double (rat_of_int 390 / 1000) = Fin (3512807709348987 / 9007199254740992)"
proof -
  have r: "rnd64 (rat_of_int 390 / 1000) = 3512807709348987 / 9007199254740992"
    by (subst rnd64_normal [where e = "-2"]) (simp_all add: round_half_even_numeral round_half_even_int_numeral)
  show ?thesis unfolding to_double_def Let_def r by simp
qed

lemma format_6f_390: "format_6f (Fin (3512807709348987 / 9007199254740992)) = ''0.390000''"
  by (simp add: fixed6_def round_half_even_numeral digit_char_def)

lemma to_double_391: "to_double (rat_of_int 391 / 1000) = Fin (220113431787733 / 562949953421312)"
proof -
  have r: "rnd64 (rat_of_int 391 / 1000) = 220113431787733 / 562949953421312"
    by (subst rnd64_normal [where e = "-2"]) (simp_all add: round_half_even_numeral round_half_even_int_numeral)
  show ?thesis unfolding to_double_def Let_def r by simp
qed

lemma format_6f_391: "format_6f (Fin (220113431787733 / 562949953421312)) = ''0.391000''"
  by (simp add: fixed6_def round_half_even_numeral digit_char_def)

lemma to_double_392: "to_double (rat_of_int 392 / 1000) = Fin (3530822107858469 / 9007199254740992)"
proof -
  have r: "rnd64 (rat_of_int 392 / 1000) = 3530822107858469 / 9007199254740992"
    by (subst rnd64_normal [where e = "-2"]) (simp_all add: round_half_even_numeral round_half_even_int_numeral)
  show ?thesis unfolding to_double_def Let_def r by simp
qed

lemma format_6f_392: "format_6f (Fin (3530822107858469 / 9007199254740992)) = ''0.392000''"
  by (simp add: fixed6_def round_half_even_numeral digit_char_def)

lemma to_double_393: "to_double (rat_of_int 393 / 1000) = Fin (1769914653556605 / 4503599627370496)"
proof -
  have r: "rnd64 (rat_of_int 393 / 1000) = 1769914653556605 / 4503599627370496"
    by (subst rnd64_normal [where e = "-2"]) (simp_all add: round_half_even_numeral round_half_even_int_numeral)
  show ?thesis unfolding to_double_def Let_def r by simp
qed

lemma format_6f_393: "format_6f (Fin (1769914653556605 / 4503599627370496)) = ''0.393000''"
  by (simp add: fixed6_def round_half_even_numeral digit_char_def)

lemma to_double_394: "to_double (rat_of_int 394 / 1000) = Fin (3548836506367951 / 9007199254740992)"
proof -
  have r: "rnd64 (rat_of_int 394 / 1000) = 3548836506367951 / 9007199254740992"
    by (subst rnd64_normal [where e = "-2"]) (simp_all add: round_half_even_numeral round_half_even_int_numeral)
  show ?thesis unfolding to_double_def Let_def r by simp
qed

lemma format_6f_394: "format_6f (Fin (3548836506367951 / 9007199254740992)) = ''0.394000''"
  by (simp add: fixed6_def round_half_even_numeral digit_char_def)

lemma to_double_395: "to_double (rat_of_int 395 / 1000) = Fin (889460926405673 / 2251799813685248)"
proof -
  have r: "rnd64 (rat_of_int 395 / 1000) = 889460926405673 / 2251799813685248"
    by (subst rnd64_normal [where e = "-2"]) (simp_all add: round_half_even_numeral round_half_even_int_numeral)
  show ?thesis unfolding to_double_def Let_def r by simp
qed

lemma format_6f_395: "format_6f (Fin (889460926405673 / 2251799813685248)) = ''0.395000''"
  by (simp add: fixed6_def round_half_even_numeral digit_char_def)

lemma to_double_396: "to_double (rat_of_int 396 / 1000) = Fin (3566850904877433 / 9007199254740992)"
proof -
  have r: "rnd64 (rat_of_int 396 / 1000) = 3566850904877433 / 9007199254740992"
    by (subst rnd64_normal [where e = "-2"]) (simp_all add: round_half_even_numeral round_half_even_int_numeral)
  show ?thesis unfolding to_double_def Let_def r by simp
qed

lemma format_6f_396: "format_6f (Fin (3566850904877433 / 9007199254740992)) = ''0.396000''"
  by (simp add: fixed6_def round_half_even_numeral digit_char_def)

lemma to_double_397: "to_double (rat_of_int 397 / 1000) = Fin (1787929052066087 / 4503599627370496)"
proof -
  have r: "rnd64 (rat_of_int 397 / 1000) = 1787929052066087 / 4503599627370496"
    by (subst rnd64_normal [where e = "-2"]) (simp_all add: round_half_even_numeral round_half_even_int_numeral)
  show ?thesis unfolding to_double_def Let_def r by simp
qed

lemma format_6f_397: "format_6f (Fin (1787929052066087 / 4503599627370496)) = ''0.397000''"
  by (simp add: fixed6_def round_half_even_numeral digit_char_def)

lemma to_double_398: "to_double (rat_of_int 398 / 1000) = Fin (3584865303386915 / 9007199254740992)"
proof -
  have r: "rnd64 (rat_of_int 398 / 1000) = 3584865303386915 / 9007199254740992"
    by (subst rnd64_normal [where e = "-2"]) (simp_all add: round_half_even_numeral round_half_even_int_numeral)
  show ?thesis unfolding to_double_def Let_def r by simp
qed

lemma format_6f_398: "format_6f (Fin (3584865303386915 / 9007199254740992)) = ''0.398000''"
  by (simp add: fixed6_def round_half_even_numeral digit_char_def)

lemma to_double_399: "to_double (rat_of_int 399 / 1000) = Fin (449234062830207 / 1125899906842624)"
proof -
  have r: "rnd64 (rat_of_int 399 / 1000) = 449234062830207 / 1125899906842624"
    by (subst rnd64_normal [where e = "-2"]) (simp_all add: round_half_even_numeral round_half_even_int_numeral)
  show ?thesis unfolding to_double_def Let_def r by simp
qed

lemma format_6f_399: "format_6f (Fin (449234062830207 / 1125899906842624)) = ''0.399000''"
  by (simp add: fixed6_def round_half_even_numeral digit_char_def)

lemma to_double_400: "to_double (rat_of_int 400 / 1000) = Fin (3602879701896397 / 9007199254740992)"
proof -
  have r: "rnd64 (rat_of_int 400 / 1000) = 3602879701896397 / 9007199254740992"
    by (subst rnd64_normal [where e = "-2"]) (simp_all add: round_half_even_numeral round_half_even_int_numeral)
  show ?thesis unfolding to_double_def Let_def r by simp
qed

lemma format_6f_400: "format_6f (Fin (3602879701896397 / 9007199254740992)) = ''0.400000''"
  by (simp add: fixed6_def round_half_even_numeral digit_char_def)

lemma to_double_401: "to_double (rat_of_int 401 / 1000) = Fin (1805943450575569 / 4503599627370496)"
proof -
  have r: "rnd64 (rat_of_int 401 / 1000) = 1805943450575569 / 4503599627370496"
    by (subst rnd64_normal [where e = "-2"]) (simp_all add: round_half_even_numeral round_half_even_int_numeral)
  show ?thesis unfolding to_double_def Let_def r by simp
qed

lemma format_6f_401: "format_6f (Fin (1805943450575569 / 4503599627370496)) = ''0.401000''"
  by (simp add: fixed6_def round_half_even_numeral digit_char_def)

lemma to_double_402: "to_double (rat_of_int 402 / 1000) = Fin (3620894100405879 / 9007199254740992)"
proof -
  have r: "rnd64 (rat_of_int 402 / 1000) = 3620894100405879 / 9007199254740992"
    by (subst rnd64_normal [where e = "-2"]) (simp_all add: round_half_even_numeral round_half_even_int_numeral)
  show ?thesis unfolding to_double_def Let_def r by simp
qed

lemma format_6f_402: "format_6f (Fin (3620894100405879 / 9007199254740992)) = ''0.402000''"
  by (simp add: fixed6_def round_half_even_numeral digit_char_def)

lemma to_double_403: "to_double (rat_of_int 403 / 1000) = Fin (907475324915155 / 2251799813685248)"
proof -
  have r: "rnd64 (rat_of_int 403 / 1000) = 907475324915155 / 2251799813685248"
    by (subst rnd64_normal [where e = "-2"]) (simp_all add: round_half_even_numeral round_half_even_int_numeral)
  show ?thesis unfolding to_double_def Let_def r by simp
qed

lemma format_6f_403: "format_6f (Fin (907475324915155 / 2251799813685248)) = ''0.403000''"
  by (simp add: fixed6_def round_half_even_numeral digit_char_def)

lemma to_double_404: "to_double (rat_of_int 404 / 1000) = Fin (3638908498915361 / 9007199254740992)"
proof -
  have r: "rnd64 (rat_of_int 404 / 1000) = 3638908498915361 / 9007199254740992"
    by (subst rnd64_normal [where e = "-2"]) (simp_all add: round_half_even_numeral round_half_even_int_numeral)
  show ?thesis unfolding to_double_def Let_def r by simp
qed

lemma format_6f_404: "format_6f (Fin (3638908498915361 / 9007199254740992)) = ''0.404000''"
  by (simp add: fixed6_def round_half_even_numeral digit_char_def)

section \<open>Float comparison\<close>

lemma float_lt_NaN_right [simp]: "\<not> float_lt x NaN"
  by (simp add: float_lt_def)

lemma float_lt_NaN_left [simp]: "\<not> float_lt NaN x"
  by (simp add: float_lt_def)

lemma float_le_NaN_right [simp]: "\<not> float_le x NaN"
  by (simp add: float_le_def)

lemma float_le_NaN_left [simp]: "\<not> float_le NaN x"
  by (simp add: float_le_def)

lemma float_le_refl: "x \<noteq> NaN \<Longrightarrow> float_le x x"
  by (simp add: float_le_def)

lemma float_lt_imp_le: "float_lt x y \<Longrightarrow> float_le x y"
  by (auto simp: float_lt_def float_le_def)

lemma float_lt_le_trans: "float_lt x y \<Longrightarrow> float_le y z \<Longrightarrow> float_lt x z"
  by (auto simp: float_lt_def float_le_def)

lemma float_lt_not_le: "float_lt x y \<Longrightarrow> \<not> float_le y x"
  by (auto simp: float_lt_def float_le_def)

lemma float_not_lt_le: "\<not> float_lt x y \<Longrightarrow> x \<noteq> NaN \<Longrightarrow> y \<noteq> NaN \<Longrightarrow> float_le y x"
  by (auto simp: float_lt_def float_le_def)

section \<open>The minimum scan\<close>

lemma min_scan_NaN: "min_scan key best NaN xs = best"
  by (induction xs) simp_all

lemma min_scan_mem: "min_scan key best bk xs \<in> insert best (set xs)"
  by (induction xs arbitrary: best bk) (auto split: if_splits)

lemma stable_min_at_first: "key x \<noteq> NaN \<Longrightarrow> stable_min_at key [x] 0"
  by (simp add: stable_min_at_def float_le_refl)

lemma stable_min_at_keep:
  assumes "stable_min_at key P i" and "\<not> float_lt (key x) (key (P ! i))"
  shows "stable_min_at key (P @ [x]) i"
proof -
  from assms(1) have i: "i < length P" and k: "key (P ! i) \<noteq> NaN"
    by (simp_all add: stable_min_at_def)
  have "key x \<noteq> NaN \<longrightarrow> float_le (key (P ! i)) (key x)"
    using assms(2) k by (auto intro: float_not_lt_le)
  with assms(1) i show ?thesis
    by (simp add: stable_min_at_def nth_append)
qed

lemma stable_min_at_replace:
  assumes "stable_min_at key P i" and lt: "float_lt (key x) (key (P ! i))"
  shows "stable_min_at key (P @ [x]) (length P)"
proof -
  from lt have kx: "key x \<noteq> NaN" by (auto simp: float_lt_def)
  from assms(1) have
    le: "\<And>y. y \<in> set P \<Longrightarrow> key y \<noteq> NaN \<Longrightarrow> float_le (key (P ! i)) (key y)"
    by (simp add: stable_min_at_def list_all_iff)
  have 1: "float_le (key x) (key y)" if "y \<in> set P" "key y \<noteq> NaN" for y
    using float_lt_le_trans [OF lt le [OF that]] by (rule float_lt_imp_le)
  have 2: "\<not> float_le (key y) (key x)" if "y \<in> set P" for y
  proof (cases "key y = NaN")
    case True
    then show ?thesis by simp
  next
    case False
    from float_lt_le_trans [OF lt le [OF that False]] show ?thesis by (rule float_lt_not_le)
  qed
  show ?thesis
    using kx 1 2 by (simp add: stable_min_at_def list_all_iff float_le_refl)
qed

lemma min_scan_stable_min:
  assumes "stable_min_at key P i"
  shows "\<exists>j. min_scan key (P ! i) (key (P ! i)) xs = (P @ xs) ! j \<and> stable_min_at key (P @ xs) j"
  using assms
proof (induction xs arbitrary: P i)
  case Nil
  then show ?case by auto
next
  case (Cons x xs)
  from Cons.prems have i: "i < length P" by (simp add: stable_min_at_def)
  show ?case
  proof (cases "float_lt (key x) (key (P ! i))")
    case True
    from stable_min_at_replace [OF Cons.prems True]
    have "stable_min_at key (P @ [x]) (length P)" .
    from Cons.IH [OF this] True show ?thesis by simp
  next
    case False
    from stable_min_at_keep [OF Cons.prems False]
    have "stable_min_at key (P @ [x]) i" .
    from Cons.IH [OF this] False i show ?thesis by (simp add: nth_append)
  qed
qed

lemma py_min_stable_min:
  assumes "key x \<noteq> NaN"
  shows "\<exists>j. py_min key x xs = (x # xs) ! j \<and> stable_min_at key (x # xs) j"
proof -
  from assms have "stable_min_at key [x] 0" by (rule stable_min_at_first)
  from min_scan_stable_min [OF this, of xs] show ?thesis by (simp add: py_min_def)
qed

lemma py_min_index: "\<exists>j < length (x # xs). py_min key x xs = (x # xs) ! j"
proof -
  have "py_min key x xs \<in> set (x # xs)"
    using min_scan_mem [of key x "key x" xs] by (simp add: py_min_def)
  then show ?thesis by (simp only: in_set_conv_nth) metis
qed

lemma stable_min_at_unique:
  assumes "stable_min_at key L i" and "stable_min_at key L j"
  shows "i = j"
proof -
  have "\<not> i' < j'" if a: "stable_min_at key L i'" and b: "stable_min_at key L j'" for i' j'
  proof
    assume lt: "i' < j'"
    from a b have i': "i' < length L" and j': "j' < length L"
      and ki: "key (L ! i') \<noteq> NaN" and kj: "key (L ! j') \<noteq> NaN"
      by (simp_all add: stable_min_at_def)
    from a j' kj have "float_le (key (L ! i')) (key (L ! j'))"
      by (simp add: stable_min_at_def list_all_iff)
    moreover have "L ! i' \<in> set (take j' L)"
      using lt j' by (metis in_set_conv_nth length_take min.absorb2 nth_take order_less_imp_le)
    with b have "\<not> float_le (key (L ! i')) (key (L ! j'))"
      by (simp add: stable_min_at_def list_all_iff)
    ultimately show False by simp
  qed
  from this [OF assms] this [OF assms(2,1)] show ?thesis by simp
qed

section \<open>Dictionaries and the store\<close>

lemma fold_upd_apply:
  "fold (\<lambda>k d. d(k \<mapsto> f k)) ks m k' = (if k' \<in> set ks then Some (f k') else m k')"
  by (induction ks arbitrary: m) auto

lemma dict_comp_apply: "dict_comp ks f k = (if k \<in> set ks then Some (f k) else None)"
  by (simp add: dict_comp_def fold_upd_apply)

lemma write_row_eq: "write_row h oh r = map (\<lambda>k. dict_get (h ! r) k []) oh"
  by (simp add: write_row_def Let_def dict_get_def dict_comp_apply)

lemma setitem_last: "setitem (h @ [d]) (length h) k v = h @ [d(k \<mapsto> v)]"
  by (simp add: setitem_def)

lemma min_scan_cong:
  "\<forall>y \<in> set xs. key y = key' y \<Longrightarrow> min_scan key b bk xs = min_scan key' b bk xs"
  by (induction xs arbitrary: b bk) simp_all

lemma filtered_cong:
  "\<forall>r \<in> set rows. h ! r = h' ! r \<Longrightarrow> filtered rt h rows mc c = filtered rt h' rows mc c"
  by (auto simp: filtered_def parsed_def intro: filter_cong)

lemma filtered_subset: "set (filtered rt h rows mc c) \<subseteq> set rows"
  by (auto simp: filtered_def)

lemma select_best_cong:
  assumes "\<forall>r \<in> set rows. h ! r = h' ! r"
  shows "select_best_for_cut rt h rows mc tc c = select_best_for_cut rt h' rows mc tc c"
proof -
  have f: "filtered rt h rows mc c = filtered rt h' rows mc c"
    using assms by (rule filtered_cong)
  have k: "parsed rt h tc r = parsed rt h' tc r" if "r \<in> set (filtered rt h' rows mc c)" for r
    using that assms filtered_subset [of rt h' rows mc c] by (auto simp: parsed_def)
  show ?thesis
  proof (cases "filtered rt h' rows mc c")
    case Nil
    then show ?thesis by (simp add: select_best_for_cut_def f)
  next
    case (Cons x xs)
    with k have "parsed rt h tc x = parsed rt h' tc x"
      and "\<forall>y \<in> set xs. parsed rt h tc y = parsed rt h' tc y" by simp_all
    then show ?thesis
      using min_scan_cong [of xs "parsed rt h tc" "parsed rt h' tc" x "parsed rt h' tc x"]
      by (simp add: select_best_for_cut_def f Cons py_min_def)
  qed
qed

lemma select_best_mem:
  assumes "select_best_for_cut rt h rows mc tc c = Some b"
  shows "b \<in> set (filtered rt h rows mc c)"
proof (cases "filtered rt h rows mc c")
  case Nil
  with assms show ?thesis by (simp add: select_best_for_cut_def)
next
  case (Cons x xs)
  with assms have "b = min_scan (parsed rt h tc) x (parsed rt h tc x) xs"
    by (simp add: select_best_for_cut_def py_min_def)
  with min_scan_mem [of "parsed rt h tc" x "parsed rt h tc x" xs] Cons show ?thesis by simp
qed

section \<open>The loop over the cuts\<close>

lemma process_cut_eq:
  "process_cut rt a header [0..<length table] c (table @ ext, res) =
     (table @ ext @ [result_dict rt a header table c], res @ [length table + length ext])"
proof -
  have sel: "select_best_for_cut rt (table @ ext) [0..<length table] (mrr_col a) (time_col a) c =
      select_best_for_cut rt table [0..<length table] (mrr_col a) (time_col a) c"
    by (rule select_best_cong) (simp add: nth_append)
  show ?thesis
  proof (cases "select_best_for_cut rt table [0..<length table] (mrr_col a) (time_col a) c")
    case None
    have "setitem (setitem ((table @ ext) @ [dict_comp header (\<lambda>k. ''/'')]) (length (table @ ext))
            ''mrr_cut'' (format_6f c)) (length (table @ ext)) (time_col a) ''/'' =
          (table @ ext) @ [placeholder header (time_col a) c]"
      by (simp only: setitem_last placeholder_def)
    then show ?thesis
      by (simp add: process_cut_def sel None alloc_def result_dict_def)
  next
    case (Some best)
    from select_best_mem [OF Some] filtered_subset [of rt table "[0..<length table]" "mrr_col a" c]
    have "best < length table" by auto
    then have b: "(table @ ext) ! best = table ! best" by (simp add: nth_append)
    have "setitem ((table @ ext) @ [table ! best]) (length (table @ ext)) ''mrr_cut'' (format_6f c) =
          (table @ ext) @ [(table ! best)(''mrr_cut'' \<mapsto> format_6f c)]"
      by (simp only: setitem_last)
    then show ?thesis
      by (simp add: process_cut_def sel Some alloc_def result_dict_def b)
  qed
qed

lemma loop_eq:
  "fold (process_cut rt a header [0..<length table]) cs (table @ ext, res) =
     (table @ ext @ map (result_dict rt a header table) cs,
      res @ [length table + length ext..<length table + length ext + length cs])"
proof (induction cs arbitrary: ext res)
  case Nil
  then show ?case by simp
next
  case (Cons c cs)
  have "fold (process_cut rt a header [0..<length table]) (c # cs) (table @ ext, res) =
        fold (process_cut rt a header [0..<length table]) cs
          (table @ (ext @ [result_dict rt a header table c]), res @ [length table + length ext])"
    by (simp add: process_cut_eq)
  also have "\<dots> =
     (table @ (ext @ [result_dict rt a header table c]) @ map (result_dict rt a header table) cs,
      (res @ [length table + length ext]) @
        [length table + length (ext @ [result_dict rt a header table c])..<
         length table + length (ext @ [result_dict rt a header table c]) + length cs])"
    by (rule Cons.IH)
  also have "\<dots> =
     (table @ ext @ map (result_dict rt a header table) (c # cs),
      res @ [length table + length ext..<length table + length ext + length (c # cs)])"
  proof -
    have "[length table + length ext..<length table + length ext + length (c # cs)] =
          (length table + length ext) #
            [length table + length (ext @ [result_dict rt a header table c])..<
             length table + length (ext @ [result_dict rt a header table c]) + length cs]"
      by (simp add: upt_conv_Cons del: upt_Suc)
    then show ?thesis by (simp del: upt_Suc)
  qed
  finally show ?case .
qed

text \<open>A run that passes the validation, as a function of the loaded table.\<close>

lemma main_valid:
  assumes "mrr_col a \<in> set header" and "time_col a \<in> set header"
  shows "main rt a header table =
     \<lparr>exit_status = 0, err_stream = [],
      written = (''mrr_cut'' # header) #
        map (\<lambda>c. map (\<lambda>k. dict_get (result_dict rt a header table c) k []) (''mrr_cut'' # header))
          (determine_cuts rt (cuts a)),
      final_heap = table @ map (result_dict rt a header table) (determine_cuts rt (cuts a)),
      result_refs = [length table..<length table + length (determine_cuts rt (cuts a))]\<rparr>"
proof -
  let ?cs = "determine_cuts rt (cuts a)"
  let ?h = "table @ map (result_dict rt a header table) ?cs"
  have loop: "fold (process_cut rt a header [0..<length table]) ?cs (table, []) =
      (?h, [length table..<length table + length ?cs])"
    using loop_eq [of rt a header table ?cs "[]" "[]"] by simp
  have rows: "map (write_row ?h (''mrr_cut'' # header)) [length table..<length table + length ?cs] =
      map (\<lambda>c. map (\<lambda>k. dict_get (result_dict rt a header table c) k []) (''mrr_cut'' # header)) ?cs"
    by (rule nth_equalityI) (simp_all add: write_row_eq nth_append del: upt_Suc)
  show ?thesis
    using assms by (simp add: main_def Let_def loop rows del: upt_Suc)
qed

lemma main_invalid:
  assumes "mrr_col a \<notin> set header \<or> time_col a \<notin> set header"
  shows "main rt a header table =
     \<lparr>exit_status = 2,
      err_stream = [if mrr_col a \<notin> set header then missing_msg ''MRR'' (mrr_col a)
                    else missing_msg ''time'' (time_col a)],
      written = [], final_heap = table, result_refs = []\<rparr>"
  using assms by (auto simp: main_def Let_def)

section \<open>Evaluation of the examples\<close>

lemma float_plain_0_30: "float_plain ''0.30'' = Some (Fin (5404319552844595 / 18014398509481984))"
proof -
  have r: "rnd64 (3 / 10) = 5404319552844595 / 18014398509481984"
    by (subst rnd64_normal [where e = "-2"]) (simp_all add: round_half_even_numeral round_half_even_int_numeral)
  show ?thesis by (simp add: float_plain_def is_digit_def dec_value_def digit_val_def to_double_def Let_def r)
qed

lemma float_plain_0_40: "float_plain ''0.40'' = Some (Fin (3602879701896397 / 9007199254740992))"
proof -
  have r: "rnd64 (2 / 5) = 3602879701896397 / 9007199254740992"
    by (subst rnd64_normal [where e = "-2"]) (simp_all add: round_half_even_numeral round_half_even_int_numeral)
  show ?thesis by (simp add: float_plain_def is_digit_def dec_value_def digit_val_def to_double_def Let_def r)
qed

lemma float_plain_0_41: "float_plain ''0.41'' = Some (Fin (7385903388887613 / 18014398509481984))"
proof -
  have r: "rnd64 (41 / 100) = 7385903388887613 / 18014398509481984"
    by (subst rnd64_normal [where e = "-2"]) (simp_all add: round_half_even_numeral round_half_even_int_numeral)
  show ?thesis by (simp add: float_plain_def is_digit_def dec_value_def digit_val_def to_double_def Let_def r)
qed

lemma float_plain_0_5: "float_plain ''0.5'' = Some (Fin (1 / 2))"
proof -
  have r: "rnd64 (1 / 2) = 1 / 2"
    by (subst rnd64_normal [where e = "-1"]) (simp_all add: round_half_even_numeral round_half_even_int_numeral)
  show ?thesis by (simp add: float_plain_def is_digit_def dec_value_def digit_val_def to_double_def Let_def r)
qed

lemma float_plain_100: "float_plain ''100'' = Some (Fin (100))"
proof -
  have r: "rnd64 (100) = 100"
    by (subst rnd64_normal [where e = "6"]) (simp_all add: round_half_even_numeral round_half_even_int_numeral)
  show ?thesis by (simp add: float_plain_def is_digit_def dec_value_def digit_val_def to_double_def Let_def r)
qed

lemma float_plain_50: "float_plain ''50'' = Some (Fin (50))"
proof -
  have r: "rnd64 (50) = 50"
    by (subst rnd64_normal [where e = "5"]) (simp_all add: round_half_even_numeral round_half_even_int_numeral)
  show ?thesis by (simp add: float_plain_def is_digit_def dec_value_def digit_val_def to_double_def Let_def r)
qed

lemma float_plain_80: "float_plain ''80'' = Some (Fin (80))"
proof -
  have r: "rnd64 (80) = 80"
    by (subst rnd64_normal [where e = "6"]) (simp_all add: round_half_even_numeral round_half_even_int_numeral)
  show ?thesis by (simp add: float_plain_def is_digit_def dec_value_def digit_val_def to_double_def Let_def r)
qed

lemma float_plain_10: "float_plain ''10'' = Some (Fin (10))"
proof -
  have r: "rnd64 (10) = 10"
    by (subst rnd64_normal [where e = "3"]) (simp_all add: round_half_even_numeral round_half_even_int_numeral)
  show ?thesis by (simp add: float_plain_def is_digit_def dec_value_def digit_val_def to_double_def Let_def r)
qed

lemma ex_cut_value: "ex_cut = Fin (3602879701896397 / 9007199254740992)"
proof -
  have r: "rnd64 (2 / 5) = 3602879701896397 / 9007199254740992"
    by (subst rnd64_normal [where e = "-2"]) (simp_all add: round_half_even_numeral round_half_even_int_numeral)
  show ?thesis by (simp add: ex_cut_def to_double_def Let_def r)
qed

lemma float_plain_rejects:
  "float_plain ''n/a'' = None" "float_plain ''-'' = None" "float_plain ''nan'' = None"
  by (simp_all add: float_plain_def is_digit_def)

lemma row_of_ex_header:
  "row_of ex_header [p, t, m] = [''nprobe'' \<mapsto> p, ''avg_query_time_ns'' \<mapsto> t, ''mrr@10'' \<mapsto> m]"
  by (simp add: row_of_def ex_header_def)

lemmas ex_parse =
  parsed_def to_float_safe_def plain_rt_def row_of_ex_header dict_get_def
  float_plain_0_30 float_plain_0_40 float_plain_0_41 float_plain_0_5
  float_plain_100 float_plain_50 float_plain_80 float_plain_10 float_plain_rejects

lemma spec_table_mrr:
  "parsed plain_rt spec_table ''mrr@10'' 0 = Fin (5404319552844595 / 18014398509481984)"
  "parsed plain_rt spec_table ''mrr@10'' (Suc 0) = Fin (3602879701896397 / 9007199254740992)"
  "parsed plain_rt spec_table ''mrr@10'' 2 = Fin (7385903388887613 / 18014398509481984)"
  by (simp_all add: spec_table_def ex_parse)

lemma spec_table_time:
  "parsed plain_rt spec_table ''avg_query_time_ns'' 0 = Fin 100"
  "parsed plain_rt spec_table ''avg_query_time_ns'' (Suc 0) = Fin 50"
  "parsed plain_rt spec_table ''avg_query_time_ns'' 2 = Fin 80"
  by (simp_all add: spec_table_def ex_parse)

lemma gap_table_mrr:
  "parsed plain_rt gap_table ''mrr@10'' 0 = Fin (3602879701896397 / 9007199254740992)"
  "parsed plain_rt gap_table ''mrr@10'' (Suc 0) = Fin (3602879701896397 / 9007199254740992)"
  "parsed plain_rt gap_table ''mrr@10'' 2 = Fin (7385903388887613 / 18014398509481984)"
  by (simp_all add: gap_table_def ex_parse)

lemma gap_table_time:
  "parsed plain_rt gap_table ''avg_query_time_ns'' 0 = NaN"
  "parsed plain_rt gap_table ''avg_query_time_ns'' (Suc 0) = Fin 50"
  "parsed plain_rt gap_table ''avg_query_time_ns'' 2 = Fin 80"
  by (simp_all add: gap_table_def ex_parse)

lemma gap_first_table_mrr:
  "parsed plain_rt gap_first_table ''mrr@10'' 0 = Fin (1 / 2)"
  "parsed plain_rt gap_first_table ''mrr@10'' (Suc 0) = Fin (1 / 2)"
  by (simp_all add: gap_first_table_def ex_parse)

lemma gap_first_table_time:
  "parsed plain_rt gap_first_table ''avg_query_time_ns'' 0 = NaN"
  "parsed plain_rt gap_first_table ''avg_query_time_ns'' (Suc 0) = Fin 10"
  by (simp_all add: gap_first_table_def ex_parse)

lemma all_gap_table_mrr:
  "parsed plain_rt all_gap_table ''mrr@10'' 0 = Fin (5404319552844595 / 18014398509481984)"
  "parsed plain_rt all_gap_table ''mrr@10'' (Suc 0) = Fin (3602879701896397 / 9007199254740992)"
  "parsed plain_rt all_gap_table ''mrr@10'' 2 = Fin (7385903388887613 / 18014398509481984)"
  by (simp_all add: all_gap_table_def ex_parse)

lemma all_gap_table_time:
  "parsed plain_rt all_gap_table ''avg_query_time_ns'' 0 = Fin 100"
  "parsed plain_rt all_gap_table ''avg_query_time_ns'' (Suc 0) = NaN"
  "parsed plain_rt all_gap_table ''avg_query_time_ns'' 2 = NaN"
  by (simp_all add: all_gap_table_def ex_parse)

lemmas float_cmp = float_ge_def float_le_def float_lt_def

lemma spec_table_filtered:
  "filtered plain_rt spec_table [0, 1, 2] ''mrr@10'' ex_cut = [1, 2]"
  by (simp add: filtered_def spec_table_mrr ex_cut_value float_cmp)

lemma gap_table_filtered:
  "filtered plain_rt gap_table [0, 1, 2] ''mrr@10'' ex_cut = [0, 1, 2]"
  by (simp add: filtered_def gap_table_mrr ex_cut_value float_cmp)

lemma gap_first_table_filtered:
  "filtered plain_rt gap_first_table [0, 1] ''mrr@10'' ex_cut = [0, 1]"
  by (simp add: filtered_def gap_first_table_mrr ex_cut_value float_cmp)

lemma all_gap_table_filtered:
  "filtered plain_rt all_gap_table [0, 1, 2] ''mrr@10'' ex_cut = [1, 2]"
  by (simp add: filtered_def all_gap_table_mrr ex_cut_value float_cmp)

lemma spec_table_select:
  "select_best_for_cut plain_rt spec_table [0, 1, 2] ''mrr@10'' ''avg_query_time_ns'' ex_cut = Some 1"
  using spec_table_filtered by (simp add: select_best_for_cut_def py_min_def spec_table_time float_cmp)

lemma gap_table_select:
  "select_best_for_cut plain_rt gap_table [0, 1, 2] ''mrr@10'' ''avg_query_time_ns'' ex_cut = Some 0"
  using gap_table_filtered by (simp add: select_best_for_cut_def py_min_def gap_table_time float_cmp)

lemma gap_first_table_select:
  "select_best_for_cut plain_rt gap_first_table [0, 1] ''mrr@10'' ''avg_query_time_ns'' ex_cut = Some 0"
  using gap_first_table_filtered by (simp add: select_best_for_cut_def py_min_def gap_first_table_time float_cmp)

lemma ex_cut_low_value: "ex_cut_low = Fin (5404319552844595 / 18014398509481984)"
proof -
  have r: "rnd64 (3 / 10) = 5404319552844595 / 18014398509481984"
    by (subst rnd64_normal [where e = "-2"]) (simp_all add: round_half_even_numeral round_half_even_int_numeral)
  show ?thesis by (simp add: ex_cut_low_def to_double_def Let_def r)
qed

lemma spec_table_filtered_low:
  "filtered plain_rt spec_table [0, 1, 2] ''mrr@10'' ex_cut_low = [0, 1, 2]"
  by (simp add: filtered_def spec_table_mrr ex_cut_low_value float_cmp)

lemma spec_table_select_low:
  "select_best_for_cut plain_rt spec_table [0, 1, 2] ''mrr@10'' ''avg_query_time_ns'' ex_cut_low = Some 1"
  using spec_table_filtered_low by (simp add: select_best_for_cut_def py_min_def spec_table_time float_cmp)

lemma gap_table_qualify:
  "float_ge (parsed plain_rt gap_table ''mrr@10'' 0) ex_cut"
  "float_ge (parsed plain_rt gap_table ''mrr@10'' (Suc 0)) ex_cut"
  "float_ge (parsed plain_rt gap_table ''mrr@10'' 2) ex_cut"
  by (simp_all add: gap_table_mrr ex_cut_value float_cmp)

lemma sorted_set_plain_single: "py_sorted_set plain_rt [x] = [x]"
  by (simp add: plain_rt_def sorted_set_plain_def)

lemma ex_args_cols:
  "mrr_col (ex_args cs) = ''mrr@10''" "time_col (ex_args cs) = ''avg_query_time_ns''"
  "cuts (ex_args cs) = cs"
  by (simp_all add: ex_args_def)

lemma ex_header_cols:
  "''mrr@10'' \<in> set ex_header" "''avg_query_time_ns'' \<in> set ex_header"
  "''mrr@10'' \<in> set out_header_again" "''avg_query_time_ns'' \<in> set out_header_again"
  by (simp_all add: ex_header_def out_header_again_def)

lemma format_6f_ex_cut: "format_6f ex_cut = ''0.400000''"
  by (simp add: ex_cut_value fixed6_def round_half_even_numeral round_half_even_int_numeral digit_char_def)

lemma fixed6_half: "fixed6 (1 / 2) = ''0.500000''"
  by (simp add: fixed6_def round_half_even_numeral round_half_even_int_numeral digit_char_def)

lemma fixed6_one: "fixed6 1 = ''1.000000''"
  by (simp add: fixed6_def round_half_even_def digit_char_def)

section \<open>The selector: claims C1, C2 and C10\<close>

lemma select_best_first_nan:
  assumes "filtered rt h rows mc c = x # xs" and "parsed rt h tc x = NaN"
  shows "select_best_for_cut rt h rows mc tc c = Some x"
  using assms by (simp add: select_best_for_cut_def py_min_def min_scan_NaN)

text \<open>
  Where the scan works as the docstring of the module says. The qualifying rows are the
  rows whose parsed MRR is \<open>>=\<close> the cut, in input order. The selector returns none when
  there is none, and otherwise one of them; when the first of them has a time that parses
  to a number, the returned row is their stable minimum by parsed time: its time is a
  number, no qualifying row with a number as time has a smaller one, and no qualifying
  row before it has a time less than or equal to its time (ties go to the first
  occurrence).
\<close>

lemma select_best_stable_min:
  "filtered rt h rows mc c =
     filter (\<lambda>r. float_ge (to_float_safe rt (dict_get (h ! r) mc ''nan'')) c) rows \<and>
   (filtered rt h rows mc c = [] \<longrightarrow> select_best_for_cut rt h rows mc tc c = None) \<and>
   (filtered rt h rows mc c \<noteq> [] \<longrightarrow>
      (\<exists>i < length (filtered rt h rows mc c).
         select_best_for_cut rt h rows mc tc c = Some (filtered rt h rows mc c ! i) \<and>
         (parsed rt h tc (hd (filtered rt h rows mc c)) \<noteq> NaN \<longrightarrow>
            stable_min_at (parsed rt h tc) (filtered rt h rows mc c) i)))"
proof -
  have f: "filtered rt h rows mc c =
     filter (\<lambda>r. float_ge (to_float_safe rt (dict_get (h ! r) mc ''nan'')) c) rows"
    by (simp add: filtered_def parsed_def)
  have s: "(filtered rt h rows mc c = [] \<longrightarrow> select_best_for_cut rt h rows mc tc c = None) \<and>
   (filtered rt h rows mc c \<noteq> [] \<longrightarrow>
      (\<exists>i < length (filtered rt h rows mc c).
         select_best_for_cut rt h rows mc tc c = Some (filtered rt h rows mc c ! i) \<and>
         (parsed rt h tc (hd (filtered rt h rows mc c)) \<noteq> NaN \<longrightarrow>
            stable_min_at (parsed rt h tc) (filtered rt h rows mc c) i)))"
  proof (cases "filtered rt h rows mc c")
    case Nil
    then show ?thesis by (simp add: select_best_for_cut_def)
  next
    case (Cons x xs)
    have sel: "select_best_for_cut rt h rows mc tc c = Some (py_min (parsed rt h tc) x xs)"
      by (simp add: select_best_for_cut_def Cons)
    show ?thesis
    proof (cases "parsed rt h tc x = NaN")
      case True
      from py_min_index [of x xs "parsed rt h tc"] True show ?thesis
        by (simp add: Cons sel)
    next
      case False
      from False py_min_stable_min [where key = "parsed rt h tc" and x = x and xs = xs]
      obtain j where j: "py_min (parsed rt h tc) x xs = (x # xs) ! j"
        and m: "stable_min_at (parsed rt h tc) (x # xs) j" by blast
      from m have "j < length (x # xs)" by (simp add: stable_min_at_def)
      with j m show ?thesis by (auto simp: Cons sel)
    qed
  qed
  from f s show ?thesis by (rule conjI)
qed

text \<open>
  With MRR 0.30, 0.40, 0.41 and times 100, 50, 80, the cut 0.30 keeps the three rows and
  the scan moves from the first row (time 100) to the second (time 50), which it then
  keeps against the third (time 80); the cut 0.40, the example of the specification,
  drops the first row and the second is selected again.
\<close>

lemma select_best_stable_min_example:
  "filtered plain_rt spec_table [0, 1, 2] ''mrr@10'' ex_cut_low = [0, 1, 2] \<and>
   select_best_for_cut plain_rt spec_table [0, 1, 2] ''mrr@10'' ''avg_query_time_ns'' ex_cut_low = Some 1 \<and>
   stable_min_at (parsed plain_rt spec_table ''avg_query_time_ns'') [0, 1, 2] 1 \<and>
   filtered plain_rt spec_table [0, 1, 2] ''mrr@10'' ex_cut = [1, 2] \<and>
   select_best_for_cut plain_rt spec_table [0, 1, 2] ''mrr@10'' ''avg_query_time_ns'' ex_cut = Some 1"
proof -
  from select_best_stable_min
    [of plain_rt spec_table "[0, 1, 2]" "''mrr@10''" ex_cut_low "''avg_query_time_ns''"]
    spec_table_filtered_low spec_table_select_low spec_table_time
  have "stable_min_at (parsed plain_rt spec_table ''avg_query_time_ns'') [0, 1, 2] 1"
    by (auto simp: less_Suc_eq)
  then show ?thesis
    using spec_table_filtered_low spec_table_select_low spec_table_filtered spec_table_select
    by simp
qed

text \<open>
  Claim C1: among the rows whose parsed MRR is \<open>>=\<close> the cut, the selector returns the
  row whose parsed time is minimal, ties to the first occurrence, and none when no row
  qualifies. The code does not do this on every list of rows. In \<open>gap_table\<close> the three
  rows have MRR 0.40, 0.40, 0.41 and all qualify for the cut 0.40; their times are
  \<open>n/a\<close>, 50 and 80. The row with the minimal time is the second; the scan of \<open>min\<close>
  starts with the first row as its candidate, 50 and 80 do not compare less than NaN, and
  the first row is returned and written.
\<close>

theorem select_best_not_minimal:
  "float_ge (parsed plain_rt gap_table ''mrr@10'' 0) ex_cut \<and>
   float_ge (parsed plain_rt gap_table ''mrr@10'' 1) ex_cut \<and>
   float_ge (parsed plain_rt gap_table ''mrr@10'' 2) ex_cut \<and>
   filtered plain_rt gap_table [0, 1, 2] ''mrr@10'' ex_cut = [0, 1, 2] \<and>
   parsed plain_rt gap_table ''avg_query_time_ns'' 0 = NaN \<and>
   parsed plain_rt gap_table ''avg_query_time_ns'' 1 = Fin 50 \<and>
   parsed plain_rt gap_table ''avg_query_time_ns'' 2 = Fin 80 \<and>
   select_best_for_cut plain_rt gap_table [0, 1, 2] ''mrr@10'' ''avg_query_time_ns'' ex_cut = Some 0 \<and>
   \<not> float_le (parsed plain_rt gap_table ''avg_query_time_ns'' 0)
        (parsed plain_rt gap_table ''avg_query_time_ns'' 1) \<and>
   written (main plain_rt (ex_args (Some [ex_cut])) ex_header gap_table) =
     [[''mrr_cut'', ''nprobe'', ''avg_query_time_ns'', ''mrr@10''],
      [''0.400000'', ''1'', ''n/a'', ''0.40'']]"
proof -
  have "[0..<length gap_table] = [0, 1, 2]"
    by (simp add: gap_table_def upt_rec)
  then have "result_dict plain_rt (ex_args (Some [ex_cut])) ex_header gap_table ex_cut =
      (gap_table ! 0)(''mrr_cut'' \<mapsto> ''0.400000'')"
    using gap_table_select by (simp add: result_dict_def ex_args_cols format_6f_ex_cut)
  then have "written (main plain_rt (ex_args (Some [ex_cut])) ex_header gap_table) =
     [[''mrr_cut'', ''nprobe'', ''avg_query_time_ns'', ''mrr@10''],
      [''0.400000'', ''1'', ''n/a'', ''0.40'']]"
    by (simp add: main_valid ex_args_cols ex_header_cols determine_cuts_def sorted_set_plain_single
        gap_table_def row_of_def dict_get_def ex_header_def)
  then show ?thesis
    using gap_table_qualify gap_table_filtered gap_table_time gap_table_select by simp
qed

text \<open>
  Claim C2: a qualifying row whose time does not parse is never selected when another
  qualifying row has a time that parses. The code does not do this. In
  \<open>gap_first_table\<close> both rows qualify for the cut 0.40, the first has the time \<open>n/a\<close>
  and the second the time 10; the scan of \<open>min\<close> starts with the first row as its
  candidate and no key compares less than NaN, so the first row is selected and written.
\<close>

theorem nan_time_row_selected:
  "filtered plain_rt gap_first_table [0, 1] ''mrr@10'' ex_cut = [0, 1] \<and>
   parsed plain_rt gap_first_table ''avg_query_time_ns'' 0 = NaN \<and>
   parsed plain_rt gap_first_table ''avg_query_time_ns'' 1 = Fin 10 \<and>
   select_best_for_cut plain_rt gap_first_table [0, 1] ''mrr@10'' ''avg_query_time_ns'' ex_cut = Some 0 \<and>
   written (main plain_rt (ex_args (Some [ex_cut])) ex_header gap_first_table) =
     [[''mrr_cut'', ''nprobe'', ''avg_query_time_ns'', ''mrr@10''],
      [''0.400000'', ''1'', ''n/a'', ''0.5'']]"
proof -
  have "[0..<length gap_first_table] = [0, 1]"
    by (simp add: gap_first_table_def upt_rec)
  then have "result_dict plain_rt (ex_args (Some [ex_cut])) ex_header gap_first_table ex_cut =
      (gap_first_table ! 0)(''mrr_cut'' \<mapsto> ''0.400000'')"
    using gap_first_table_select by (simp add: result_dict_def ex_args_cols format_6f_ex_cut)
  then have "written (main plain_rt (ex_args (Some [ex_cut])) ex_header gap_first_table) =
     [[''mrr_cut'', ''nprobe'', ''avg_query_time_ns'', ''mrr@10''],
      [''0.400000'', ''1'', ''n/a'', ''0.5'']]"
    by (simp add: main_valid ex_args_cols ex_header_cols determine_cuts_def sorted_set_plain_single
        gap_first_table_def row_of_def dict_get_def ex_header_def)
  then show ?thesis
    using gap_first_table_filtered gap_first_table_time gap_first_table_select by simp
qed

text \<open>
  Claim C10. When at least one row qualifies and the time of every qualifying row parses
  to NaN, the selector returns the first qualifying row in input order.
\<close>

theorem select_best_all_nan:
  assumes "filtered rt h rows mc c \<noteq> []"
    and "\<forall>r \<in> set (filtered rt h rows mc c). parsed rt h tc r = NaN"
  shows "select_best_for_cut rt h rows mc tc c = Some (hd (filtered rt h rows mc c))"
proof -
  from assms(1) obtain x xs where f: "filtered rt h rows mc c = x # xs"
    by (cases "filtered rt h rows mc c") auto
  with assms(2) have "parsed rt h tc x = NaN" by simp
  with f show ?thesis by (simp add: select_best_first_nan)
qed

text \<open>
  In \<open>all_gap_table\<close> the rows with MRR 0.40 and 0.41 qualify for the cut 0.40, the time
  of neither is a number, and the row with MRR 0.40, the first of the two, is returned.
\<close>

theorem select_best_all_nan_witness:
  "filtered plain_rt all_gap_table [0, 1, 2] ''mrr@10'' ex_cut = [1, 2] \<and>
   parsed plain_rt all_gap_table ''avg_query_time_ns'' 1 = NaN \<and>
   parsed plain_rt all_gap_table ''avg_query_time_ns'' 2 = NaN \<and>
   select_best_for_cut plain_rt all_gap_table [0, 1, 2] ''mrr@10'' ''avg_query_time_ns'' ex_cut = Some 1"
  using select_best_all_nan
    [of plain_rt all_gap_table "[0, 1, 2]" "''mrr@10''" ex_cut "''avg_query_time_ns''"]
    all_gap_table_filtered all_gap_table_time
  by simp

section \<open>The cuts: claims C3 and C9\<close>

lemma determine_cuts_None: "determine_cuts rt None = default_cuts"
  by (simp add: determine_cuts_def)

lemma determine_cuts_empty: "determine_cuts rt (Some []) = default_cuts"
  by (simp add: determine_cuts_def)

lemma length_default_cuts: "length default_cuts = 15"
  by (simp add: default_cuts_values)

lemma process_cut_cuts_update: "process_cut rt (a\<lparr>cuts := cs\<rparr>) = process_cut rt a"
  by (intro ext) (auto simp: process_cut_def split: prod.splits option.splits)

text \<open>
  Claim C3, as amended. When no \<open>--cuts\<close> argument is given, the cut generator produces
  exactly 15 values: the floats nearest to 0.390, 0.391, \<dots>, 0.404 (each the sum
  \<open>0.39 + i * 0.001\<close> rounded to six decimals), whose labels are \<open>0.390000\<close>,
  \<open>0.391000\<close>, \<dots>, \<open>0.404000\<close>.
\<close>

theorem default_cut_sequence:
  "determine_cuts rt None =
     map (\<lambda>k. to_double (rat_of_int k / 1000))
       [390, 391, 392, 393, 394, 395, 396, 397, 398, 399, 400, 401, 402, 403, 404] \<and>
   length (determine_cuts rt None) = 15 \<and>
   map format_6f (determine_cuts rt None) =
     [''0.390000'', ''0.391000'', ''0.392000'', ''0.393000'', ''0.394000'',
      ''0.395000'', ''0.396000'', ''0.397000'', ''0.398000'', ''0.399000'',
      ''0.400000'', ''0.401000'', ''0.402000'', ''0.403000'', ''0.404000'']"
proof -
  have v: "default_cuts =
     map (\<lambda>k. to_double (rat_of_int k / 1000))
       [390, 391, 392, 393, 394, 395, 396, 397, 398, 399, 400, 401, 402, 403, 404]"
    by (simp only: default_cuts_values list.map to_double_390 to_double_391 to_double_392
        to_double_393 to_double_394 to_double_395 to_double_396 to_double_397 to_double_398
        to_double_399 to_double_400 to_double_401 to_double_402 to_double_403 to_double_404)
  have f: "map format_6f default_cuts =
     [''0.390000'', ''0.391000'', ''0.392000'', ''0.393000'', ''0.394000'',
      ''0.395000'', ''0.396000'', ''0.397000'', ''0.398000'', ''0.399000'',
      ''0.400000'', ''0.401000'', ''0.402000'', ''0.403000'', ''0.404000'']"
    by (simp only: default_cuts_values list.map format_6f_390 format_6f_391 format_6f_392
        format_6f_393 format_6f_394 format_6f_395 format_6f_396 format_6f_397 format_6f_398
        format_6f_399 format_6f_400 format_6f_401 format_6f_402 format_6f_403 format_6f_404)
  show ?thesis
    by (simp only: determine_cuts_None length_default_cuts f simp_thms) (rule v)
qed

text \<open>Claim C3 as stated fails: the default sequence does not have 16 values.\<close>

theorem default_cuts_not_16: "length (determine_cuts plain_rt None) \<noteq> 16"
  by (simp add: determine_cuts_None length_default_cuts)

text \<open>
  Claim C9. \<open>--cuts\<close> with an empty list of values is treated as \<open>--cuts\<close> omitted: the
  cuts are the default sequence, not zero cuts, and the whole run is the same.
\<close>

theorem empty_cuts_is_default:
  "determine_cuts rt (Some []) = determine_cuts rt None \<and>
   length (determine_cuts rt (Some [])) = 15 \<and>
   main rt (a\<lparr>cuts := Some []\<rparr>) header table = main rt (a\<lparr>cuts := None\<rparr>) header table"
  by (simp add: determine_cuts_None determine_cuts_empty length_default_cuts main_def
      process_cut_cuts_update)

section \<open>The run: claims C4 to C8\<close>

lemma placeholder_apply:
  "placeholder header tc c k =
     (if k = tc then Some ''/''
      else if k = ''mrr_cut'' then Some (format_6f c)
      else if k \<in> set header then Some ''/'' else None)"
  by (simp add: placeholder_def dict_comp_apply)

lemma upt_3: "[0..<3] = [0, 1, 2]"
  by (simp add: upt_rec)

lemma length_spec_table: "length spec_table = 3"
  by (simp add: spec_table_def)

text \<open>
  Claim C4. In a run that passes the validation of the two column names, the number of
  data rows written equals the number of cuts evaluated.
\<close>

theorem one_output_row_per_cut:
  assumes "mrr_col a \<in> set header" and "time_col a \<in> set header"
  shows "length (tl (written (main rt a header table))) = length (determine_cuts rt (cuts a))"
  using assms by (simp add: main_valid)

theorem one_output_row_per_cut_witness:
  "mrr_col (ex_args None) \<in> set ex_header \<and> time_col (ex_args None) \<in> set ex_header \<and>
   length (tl (written (main plain_rt (ex_args None) ex_header spec_table))) = 15"
  using one_output_row_per_cut [of "ex_args None" ex_header plain_rt spec_table]
  by (simp add: ex_args_cols ex_header_cols determine_cuts_None length_default_cuts)

text \<open>
  Claim C5. If the MRR column name or the time column name is not in the input header,
  the run prints one error line, exits with status 2, writes nothing to the output
  target, and has processed no row: no dictionary has been allocated and \<open>results\<close> is
  empty.
\<close>

theorem missing_column_exit_2:
  assumes "mrr_col a \<notin> set header \<or> time_col a \<notin> set header"
  shows "exit_status (main rt a header table) = 2 \<and>
    err_stream (main rt a header table) =
      [if mrr_col a \<notin> set header then missing_msg ''MRR'' (mrr_col a)
       else missing_msg ''time'' (time_col a)] \<and>
    written (main rt a header table) = [] \<and>
    final_heap (main rt a header table) = table \<and>
    result_refs (main rt a header table) = []"
  using assms by (simp add: main_invalid)

theorem missing_column_exit_2_witness:
  "mrr_col (ex_args None) \<notin> set [''nprobe'', ''avg_query_time_ns''] \<and>
   exit_status (main plain_rt (ex_args None) [''nprobe'', ''avg_query_time_ns''] spec_table) = 2 \<and>
   err_stream (main plain_rt (ex_args None) [''nprobe'', ''avg_query_time_ns''] spec_table) =
     [missing_msg ''MRR'' ''mrr@10''] \<and>
   written (main plain_rt (ex_args None) [''nprobe'', ''avg_query_time_ns''] spec_table) = []"
  using missing_column_exit_2
    [of "ex_args None" "[''nprobe'', ''avg_query_time_ns'']" plain_rt spec_table]
  by (simp add: ex_args_cols)

text \<open>
  Claim C7. In a run that passes the validation, the first row written is the header
  \<open>mrr_cut\<close> followed by the columns of the input header in their order.
\<close>

theorem output_header_row:
  assumes "mrr_col a \<in> set header" and "time_col a \<in> set header"
  shows "written (main rt a header table) \<noteq> [] \<and>
    hd (written (main rt a header table)) = ''mrr_cut'' # header"
  using assms by (simp add: main_valid)

theorem output_header_row_witness:
  "mrr_col (ex_args None) \<in> set ex_header \<and> time_col (ex_args None) \<in> set ex_header \<and>
   hd (written (main plain_rt (ex_args None) ex_header spec_table)) =
     [''mrr_cut'', ''nprobe'', ''avg_query_time_ns'', ''mrr@10'']"
  using output_header_row [of "ex_args None" ex_header plain_rt spec_table]
  by (simp add: ex_args_cols ex_header_cols) (simp add: ex_header_def)

text \<open>
  Claim C6, as amended. For every cut with no qualifying row, the run is not an error,
  and the row written for the cut holds \<open>/\<close> in every field of the input header
  (the time column included) other than a column that is itself named \<open>mrr_cut\<close>; the
  field \<open>mrr_cut\<close>, and with it such a column, holds the cut formatted to six decimals,
  unless the time column is the one named \<open>mrr_cut\<close>, in which case it holds \<open>/\<close>. When
  no input column is named \<open>mrr_cut\<close>, the row is the formatted cut followed by \<open>/\<close>
  for every input column.
\<close>

theorem placeholder_row_written:
  assumes "mrr_col a \<in> set header" and "time_col a \<in> set header"
    and "i < length (determine_cuts rt (cuts a))"
    and "select_best_for_cut rt table [0..<length table] (mrr_col a) (time_col a)
           (determine_cuts rt (cuts a) ! i) = None"
  shows "exit_status (main rt a header table) = 0 \<and>
    written (main rt a header table) ! Suc i =
      map (\<lambda>k. if k = ''mrr_cut'' \<and> time_col a \<noteq> ''mrr_cut''
               then format_6f (determine_cuts rt (cuts a) ! i) else ''/'')
        (''mrr_cut'' # header) \<and>
    (''mrr_cut'' \<notin> set header \<longrightarrow>
       written (main rt a header table) ! Suc i =
         format_6f (determine_cuts rt (cuts a) ! i) # map (\<lambda>k. ''/'') header)"
proof -
  let ?c = "determine_cuts rt (cuts a) ! i"
  have r: "result_dict rt a header table ?c = placeholder header (time_col a) ?c"
    using assms(4) by (simp add: result_dict_def)
  have w: "written (main rt a header table) ! Suc i =
      map (\<lambda>k. dict_get (placeholder header (time_col a) ?c) k []) (''mrr_cut'' # header)"
    using assms(1-3) by (simp add: main_valid r)
  have 1: "map (\<lambda>k. dict_get (placeholder header (time_col a) ?c) k []) (''mrr_cut'' # header) =
      map (\<lambda>k. if k = ''mrr_cut'' \<and> time_col a \<noteq> ''mrr_cut'' then format_6f ?c else ''/'')
        (''mrr_cut'' # header)"
    by (rule map_cong) (auto simp: dict_get_def placeholder_apply)
  have 2: "map (\<lambda>k. if k = ''mrr_cut'' \<and> time_col a \<noteq> ''mrr_cut'' then format_6f ?c else ''/'')
        (''mrr_cut'' # header) = format_6f ?c # map (\<lambda>k. ''/'') header"
    if "''mrr_cut'' \<notin> set header"
    using that assms(2) by (auto intro: map_cong)
  show ?thesis
    using assms(1,2) 2 by (simp only: w 1 simp_thms) (simp add: main_valid)
qed

text \<open>
  In the table of the specification's example no MRR reaches the cut 1.0; the row
  written for it is the label and three markers.
\<close>

theorem placeholder_row_written_witness:
  "mrr_col (ex_args (Some [Fin 1])) \<in> set ex_header \<and>
   time_col (ex_args (Some [Fin 1])) \<in> set ex_header \<and>
   0 < length (determine_cuts plain_rt (cuts (ex_args (Some [Fin 1])))) \<and>
   select_best_for_cut plain_rt spec_table [0..<length spec_table] ''mrr@10''
     ''avg_query_time_ns'' (Fin 1) = None \<and>
   exit_status (main plain_rt (ex_args (Some [Fin 1])) ex_header spec_table) = 0 \<and>
   written (main plain_rt (ex_args (Some [Fin 1])) ex_header spec_table) ! 1 =
     [''1.000000'', ''/'', ''/'', ''/'']"
proof -
  have c: "determine_cuts plain_rt (Some [Fin 1]) = [Fin 1]"
    by (simp add: determine_cuts_def sorted_set_plain_single)
  have s: "select_best_for_cut plain_rt spec_table [0..<length spec_table] ''mrr@10''
     ''avg_query_time_ns'' (Fin 1) = None"
    by (simp add: length_spec_table upt_3 select_best_for_cut_def filtered_def spec_table_mrr
        float_cmp)
  from placeholder_row_written [of "ex_args (Some [Fin 1])" ex_header 0 plain_rt spec_table]
  show ?thesis
    using s by (simp add: c ex_args_cols ex_header_cols fixed6_one) (simp add: ex_header_def)
qed

text \<open>
  Claim C6 as stated fails on a file that has a column named \<open>mrr_cut\<close>, such as a
  file written by the program itself: in the row written for a cut without a qualifying
  row, that input column holds the formatted cut, not \<open>/\<close>.
\<close>

theorem placeholder_mrr_cut_column:
  "select_best_for_cut plain_rt [] [] ''mrr@10'' ''avg_query_time_ns'' (Fin (1 / 2)) = None \<and>
   hd out_header_again = ''mrr_cut'' \<and>
   written (main plain_rt (ex_args (Some [Fin (1 / 2)])) out_header_again []) ! 1 =
     [''0.500000'', ''0.500000'', ''/'', ''/'', ''/''] \<and>
   written (main plain_rt (ex_args (Some [Fin (1 / 2)])) out_header_again []) ! 1 ! 1 \<noteq> ''/''"
proof -
  have c: "determine_cuts plain_rt (Some [Fin (1 / 2)]) = [Fin (1 / 2)]"
    by (simp add: determine_cuts_def sorted_set_plain_single)
  have s: "select_best_for_cut plain_rt [] [] ''mrr@10'' ''avg_query_time_ns'' (Fin (1 / 2)) = None"
    by (simp add: select_best_for_cut_def filtered_def)
  have "written (main plain_rt (ex_args (Some [Fin (1 / 2)])) out_header_again []) ! 1 =
     [''0.500000'', ''0.500000'', ''/'', ''/'', ''/'']"
    using s by (simp add: main_valid ex_args_cols ex_header_cols c result_dict_def
        placeholder_apply dict_get_def fixed6_half)
      (simp add: out_header_again_def fixed6_half)
  with s show ?thesis by (simp add: out_header_again_def)
qed

text \<open>
  Claim C8. No run mutates a loaded row: at the end the objects of the input rows are as
  loaded, every other object of the store is one that \<open>results\<close> refers to, and no
  reference in \<open>results\<close> is the reference of an input row (each result is a new
  dictionary, the copy \<open>dict(best)\<close> or the placeholder).
\<close>

theorem input_rows_not_mutated:
  "take (length table) (final_heap (main rt a header table)) = table \<and>
   length (final_heap (main rt a header table)) =
     length table + length (result_refs (main rt a header table)) \<and>
   set (result_refs (main rt a header table)) \<inter> {0..<length table} = {}"
proof (cases "mrr_col a \<in> set header \<and> time_col a \<in> set header")
  case True
  then show ?thesis by (auto simp: main_valid)
next
  case False
  then have "mrr_col a \<notin> set header \<or> time_col a \<notin> set header" by simp
  then show ?thesis by (simp add: main_invalid)
qed

end
